theory Spec2Isabelle
  imports Complex_Main
begin

section \<open>JavaScript numbers\<close>

text \<open>
  A JavaScript \<^verbatim>\<open>number\<close> is a finite value, \<^verbatim>\<open>NaN\<close>, \<^verbatim>\<open>Infinity\<close> or \<^verbatim>\<open>-Infinity\<close>.
  Finite values are carried as reals and there is one zero, which divides like
  \<^verbatim>\<open>+0\<close>. The special values follow ECMAScript: \<^verbatim>\<open>NaN\<close> is contagious and compares
  false with everything, the infinities absorb finite operands. The operations
  \<open>js_add\<close>, \<open>js_mul\<close> and \<open>js_div\<close> give the exact result; \<open>dbl\<close> below rounds an
  exact result to the nearest double, and is applied where a rounded value decides a
  discrete outcome (the bucket of a wind barb).
\<close>

datatype jsnum = Fin real | NaN | PInf | NInf

fun js_isNaN :: "jsnum \<Rightarrow> bool" where
  "js_isNaN NaN = True"
| "js_isNaN _ = False"

fun js_isFinite :: "jsnum \<Rightarrow> bool" where
  "js_isFinite (Fin _) = True"
| "js_isFinite _ = False"

fun js_neg :: "jsnum \<Rightarrow> jsnum" where
  "js_neg (Fin a) = Fin (- a)"
| "js_neg NaN = NaN"
| "js_neg PInf = NInf"
| "js_neg NInf = PInf"

fun js_add :: "jsnum \<Rightarrow> jsnum \<Rightarrow> jsnum" where
  "js_add (Fin a) (Fin b) = Fin (a + b)"
| "js_add NaN _ = NaN"
| "js_add _ NaN = NaN"
| "js_add PInf NInf = NaN"
| "js_add NInf PInf = NaN"
| "js_add PInf _ = PInf"
| "js_add _ PInf = PInf"
| "js_add NInf _ = NInf"
| "js_add _ NInf = NInf"

definition js_sub :: "jsnum \<Rightarrow> jsnum \<Rightarrow> jsnum" where
  "js_sub a b = js_add a (js_neg b)"

text \<open>The sign of a number that is not \<^verbatim>\<open>NaN\<close>: \<open>-1\<close>, \<open>0\<close> or \<open>1\<close>.\<close>

fun js_sign :: "jsnum \<Rightarrow> int" where
  "js_sign (Fin a) = (if a < 0 then - 1 else if a = 0 then 0 else 1)"
| "js_sign PInf = 1"
| "js_sign NInf = - 1"
| "js_sign NaN = 0"

definition js_inf :: "int \<Rightarrow> jsnum" where
  "js_inf s = (if s < 0 then NInf else PInf)"

fun js_mul :: "jsnum \<Rightarrow> jsnum \<Rightarrow> jsnum" where
  "js_mul (Fin a) (Fin b) = Fin (a * b)"
| "js_mul NaN _ = NaN"
| "js_mul _ NaN = NaN"
| "js_mul a b =
     (if js_sign a = 0 \<or> js_sign b = 0 then NaN else js_inf (js_sign a * js_sign b))"

fun js_div :: "jsnum \<Rightarrow> jsnum \<Rightarrow> jsnum" where
  "js_div (Fin a) (Fin b) =
     (if b = 0 then (if a = 0 then NaN else js_inf (js_sign (Fin a))) else Fin (a / b))"
| "js_div NaN _ = NaN"
| "js_div _ NaN = NaN"
| "js_div (Fin a) _ = Fin 0"
| "js_div a (Fin b) = js_inf (js_sign a * (if b < 0 then - 1 else 1))"
| "js_div _ _ = NaN"

fun js_lt :: "jsnum \<Rightarrow> jsnum \<Rightarrow> bool" where
  "js_lt (Fin a) (Fin b) = (a < b)"
| "js_lt NaN _ = False"
| "js_lt _ NaN = False"
| "js_lt NInf NInf = False"
| "js_lt NInf _ = True"
| "js_lt PInf _ = False"
| "js_lt (Fin a) PInf = True"
| "js_lt (Fin a) NInf = False"

text \<open>\<^verbatim>\<open>a > b\<close>, \<^verbatim>\<open>a <= b\<close> and \<^verbatim>\<open>a >= b\<close>; each is false when an operand is \<^verbatim>\<open>NaN\<close>.\<close>

definition js_gt :: "jsnum \<Rightarrow> jsnum \<Rightarrow> bool" where
  "js_gt a b = js_lt b a"

definition js_le :: "jsnum \<Rightarrow> jsnum \<Rightarrow> bool" where
  "js_le a b = (js_lt a b \<or> (\<not> js_isNaN a \<and> a = b))"

definition js_ge :: "jsnum \<Rightarrow> jsnum \<Rightarrow> bool" where
  "js_ge a b = js_le b a"

text \<open>\<^verbatim>\<open>Math.abs\<close>, \<^verbatim>\<open>Math.max\<close> of two arguments, \<^verbatim>\<open>Math.round\<close> (halves go up) and
  \<^verbatim>\<open>Math.pow(v, 0.286)\<close>, the only power the program takes.\<close>

fun js_abs :: "jsnum \<Rightarrow> jsnum" where
  "js_abs (Fin a) = Fin \<bar>a\<bar>"
| "js_abs NaN = NaN"
| "js_abs _ = PInf"

definition js_max :: "jsnum \<Rightarrow> jsnum \<Rightarrow> jsnum" where
  "js_max a b = (if js_isNaN a \<or> js_isNaN b then NaN else if js_lt a b then b else a)"

fun js_round :: "jsnum \<Rightarrow> jsnum" where
  "js_round (Fin a) = Fin (of_int \<lfloor>a + 1 / 2\<rfloor>)"
| "js_round v = v"

fun js_pow_0286 :: "jsnum \<Rightarrow> jsnum" where
  "js_pow_0286 (Fin a) = (if a < 0 then NaN else if a = 0 then Fin 0 else Fin (a powr 0.286))"
| "js_pow_0286 NaN = NaN"
| "js_pow_0286 _ = PInf"

text \<open>Rounding to double precision (IEEE 754 binary64, round to nearest, ties to even):
  \<open>rne\<close> rounds to the nearest integer, ties to the even one; the unit in the last place
  of \<open>x\<close> is \<open>2^(e - 52)\<close> for the exponent \<open>e\<close> of \<open>x\<close>, which is at least \<open>-1022\<close>
  (below that the values are subnormal); a result of magnitude \<open>2^1024\<close> overflows to an
  infinity. A decimal literal denotes the double nearest to it.\<close>

definition rne :: "real \<Rightarrow> int" where
  "rne r =
     (let f = \<lfloor>r\<rfloor> in
      if r - of_int f < 1 / 2 then f
      else if 1 / 2 < r - of_int f then f + 1
      else if even f then f else f + 1)"

definition fl_exp :: "real \<Rightarrow> int" where
  "fl_exp x = max (- 1022) \<lfloor>log 2 \<bar>x\<bar>\<rfloor>"

definition fl_ulp :: "real \<Rightarrow> real" where
  "fl_ulp x = 2 powr (of_int (fl_exp x) - 52)"

definition fl :: "real \<Rightarrow> real" where
  "fl x = (if x = 0 then 0 else fl_ulp x * of_int (rne (x / fl_ulp x)))"

definition dbl :: "real \<Rightarrow> jsnum" where
  "dbl x = (if 2 ^ 1024 \<le> fl x then PInf else if fl x \<le> - (2 ^ 1024) then NInf else Fin (fl x))"

fun dbl_num :: "jsnum \<Rightarrow> jsnum" where
  "dbl_num (Fin a) = dbl a"
| "dbl_num v = v"

section \<open>Sounding samples (types)\<close>

text \<open>\<^verbatim>\<open>SkewTMeasurement\<close>: only \<^verbatim>\<open>press\<close> is required; an optional field that is absent is
  \<open>None\<close>, so \<^verbatim>\<open>typeof d.temp === 'number'\<close> is \<open>temp d \<noteq> None\<close>.\<close>

record SkewTMeasurement =
  press :: jsnum
  hght :: "jsnum option"
  temp :: "jsnum option"
  dwpt :: "jsnum option"
  wdir :: "jsnum option"
  wspd :: "jsnum option"

section \<open>Unit conversion (utils/conversions.ts)\<close>

definition convertWindSpeed :: "jsnum \<Rightarrow> string \<Rightarrow> jsnum" where
  "convertWindSpeed msvalue unit =
     (if unit = ''kt'' then js_mul msvalue (Fin 1.943844492)
      else if unit = ''kmh'' then js_mul msvalue (Fin 3.6)
      else msvalue)"

text \<open>The same function evaluated in double precision: the literal is the nearest
  double and the product is rounded.\<close>

definition convertWindSpeed_dbl :: "jsnum \<Rightarrow> string \<Rightarrow> jsnum" where
  "convertWindSpeed_dbl msvalue unit =
     (if unit = ''kt'' then dbl_num (js_mul msvalue (Fin (fl 1.943844492)))
      else if unit = ''kmh'' then dbl_num (js_mul msvalue (Fin (fl 3.6)))
      else msvalue)"

section \<open>Top pressure (utils/drawFunctions.ts, src/index.ts)\<close>

text \<open>\<^verbatim>\<open>getSmallestPressureValue\<close>: 100 for an empty profile, otherwise the \<^verbatim>\<open>reduce\<close> that
  keeps the current sample's pressure when it is below the running minimum, started at
  the first sample's pressure and run over every sample.\<close>

definition getSmallestPressureValue :: "SkewTMeasurement list \<Rightarrow> jsnum" where
  "getSmallestPressureValue measurements =
     (case measurements of
        [] \<Rightarrow> Fin 100
      | m0 # _ \<Rightarrow>
          foldl (\<lambda>mn current. if js_lt (press current) mn then press current else mn)
            (press m0) measurements)"

text \<open>\<^verbatim>\<open>const topp = Math.max(50, getSmallestPressureValue(data) - 10)\<close>.\<close>

definition topp :: "SkewTMeasurement list \<Rightarrow> jsnum" where
  "topp data = js_max (Fin 50) (js_sub (getSmallestPressureValue data) (Fin 10))"

section \<open>The d3 functions the program calls\<close>

text \<open>
  d3 (version 7, as the README requires) is not part of the repository. The functions
  below follow the library's published algorithms for the calls the program makes:
  \<^verbatim>\<open>d3.range\<close>, \<^verbatim>\<open>d3.bisector(f).left\<close>, the \<^verbatim>\<open>d3.line\<close> generator with its
  \<^verbatim>\<open>defined\<close> accessor, and the continuous scales. A scale is a function on numbers;
  \<^verbatim>\<open>undefined\<close>, which a scale returns for \<^verbatim>\<open>NaN\<close>, is identified with \<^verbatim>\<open>NaN\<close>
  since every use is arithmetic.
\<close>

type_synonym scale = "jsnum \<Rightarrow> jsnum"

type_synonym point = "jsnum \<times> jsnum"

text \<open>\<^verbatim>\<open>d3.range(start, stop, step)\<close> on integer literals, and on numbers: the length is
  \<^verbatim>\<open>max(0, ceil((stop - start) / step))\<close>, zero when that is not a finite number.\<close>

definition d3_range_int :: "int \<Rightarrow> int \<Rightarrow> int \<Rightarrow> int list" where
  "d3_range_int start stop step =
     map (\<lambda>i. start + int i * step)
       [0 ..< nat \<lceil>(of_int (stop - start) :: real) / of_int step\<rceil>]"

definition d3_range :: "jsnum \<Rightarrow> jsnum \<Rightarrow> jsnum \<Rightarrow> jsnum list" where
  "d3_range start stop step =
     (case js_div (js_sub stop start) step of
        Fin n \<Rightarrow> map (\<lambda>i. js_add start (js_mul (Fin (of_nat i)) step)) [0 ..< nat \<lceil>n\<rceil>]
      | _ \<Rightarrow> [])"

text \<open>The line generator walks the data once; a sample that is not \<^verbatim>\<open>defined\<close> ends the
  current sub-path and the next defined sample starts a new one. The result is the list
  of sub-paths, each a list of points joined by straight segments.\<close>

fun d3_line_gen :: "('a \<Rightarrow> bool) \<Rightarrow> ('a \<Rightarrow> point) \<Rightarrow> 'a list \<Rightarrow> point list option \<Rightarrow> point list list" where
  "d3_line_gen df pt [] cur = (case cur of None \<Rightarrow> [] | Some run \<Rightarrow> [run])"
| "d3_line_gen df pt (d # ds) cur =
     (if df d
      then d3_line_gen df pt ds (Some ((case cur of None \<Rightarrow> [] | Some run \<Rightarrow> run) @ [pt d]))
      else (case cur of
              None \<Rightarrow> d3_line_gen df pt ds None
            | Some run \<Rightarrow> run # d3_line_gen df pt ds None))"

definition d3_line :: "('a \<Rightarrow> bool) \<Rightarrow> ('a \<Rightarrow> jsnum) \<Rightarrow> ('a \<Rightarrow> jsnum) \<Rightarrow> 'a list \<Rightarrow> point list list" where
  "d3_line df xf yf data = d3_line_gen df (\<lambda>d. (xf d, yf d)) data None"

text \<open>The straight segments a path draws: the consecutive pairs of each sub-path.\<close>

definition segments :: "point list list \<Rightarrow> (point \<times> point) list" where
  "segments runs = concat (map (\<lambda>run. zip run (tl run)) runs)"

text \<open>Continuous scales: \<^verbatim>\<open>normalize\<close>, \<^verbatim>\<open>interpolateNumber\<close> and their composition over a
  two-point domain and range; the log scale takes \<^verbatim>\<open>Math.log\<close> of the domain and of
  the argument first (positive domains, as the program builds).\<close>

fun js_log :: "jsnum \<Rightarrow> jsnum" where
  "js_log (Fin a) = (if a < 0 then NaN else if a = 0 then NInf else Fin (ln a))"
| "js_log PInf = PInf"
| "js_log _ = NaN"

definition normalize :: "jsnum \<Rightarrow> jsnum \<Rightarrow> jsnum \<Rightarrow> jsnum" where
  "normalize a b v =
     (let b' = js_sub b a in
      if b' = Fin 0 then Fin 0.5
      else if js_isNaN b' then NaN
      else js_div (js_sub v a) b')"

definition interpolateNumber :: "jsnum \<Rightarrow> jsnum \<Rightarrow> jsnum \<Rightarrow> jsnum" where
  "interpolateNumber a b t = js_add (js_mul a (js_sub (Fin 1) t)) (js_mul b t)"

definition bimap :: "jsnum \<Rightarrow> jsnum \<Rightarrow> jsnum \<Rightarrow> jsnum \<Rightarrow> scale" where
  "bimap d0 d1 r0 r1 v =
     (if js_lt d1 d0 then interpolateNumber r1 r0 (normalize d1 d0 v)
      else interpolateNumber r0 r1 (normalize d0 d1 v))"

definition scaleLinear :: "jsnum \<Rightarrow> jsnum \<Rightarrow> jsnum \<Rightarrow> jsnum \<Rightarrow> scale" where
  "scaleLinear d0 d1 r0 r1 v = (if js_isNaN v then NaN else bimap d0 d1 r0 r1 v)"

definition scaleLog :: "jsnum \<Rightarrow> jsnum \<Rightarrow> jsnum \<Rightarrow> jsnum \<Rightarrow> scale" where
  "scaleLog d0 d1 r0 r1 v =
     (if js_isNaN v then NaN else bimap (js_log d0) (js_log d1) r0 r1 (js_log v))"

section \<open>Background geometry (drawBackground)\<close>

text \<open>Skewed temperature lines: one \<^verbatim>\<open>line\<close> per \<open>d\<close> of \<^verbatim>\<open>d3.range(-100, 45, 10)\<close>,
  from \<open>(x1, 0)\<close> at the top of the plot to \<open>(x2, h)\<close> at its bottom.\<close>

definition templine_x1 :: "scale \<Rightarrow> scale \<Rightarrow> jsnum \<Rightarrow> jsnum \<Rightarrow> jsnum \<Rightarrow> jsnum" where
  "templine_x1 x y basep tang d =
     js_add (js_sub (x d) (Fin 0.5)) (js_div (js_sub (y basep) (y (Fin 100))) tang)"

definition templine_x2 :: "scale \<Rightarrow> jsnum \<Rightarrow> jsnum" where
  "templine_x2 x d = js_sub (x d) (Fin 0.5)"

definition isotherms :: "scale \<Rightarrow> scale \<Rightarrow> jsnum \<Rightarrow> jsnum \<Rightarrow> jsnum \<Rightarrow> (point \<times> point) list" where
  "isotherms x y basep tang h =
     map (\<lambda>d. ((templine_x1 x y basep tang (Fin (of_int d)), Fin 0),
                (templine_x2 x (Fin (of_int d)), h)))
       (d3_range_int (- 100) 45 10)"

text \<open>Logarithmic pressure lines: from \<open>(0, y d)\<close> to \<open>(w, y d)\<close> for each \<open>d\<close> of
  \<^verbatim>\<open>plines\<close>.\<close>

definition isobars :: "scale \<Rightarrow> jsnum \<Rightarrow> jsnum list \<Rightarrow> (point \<times> point) list" where
  "isobars y w plines = map (\<lambda>d. ((Fin 0, y d), (w, y d))) plines"

text \<open>Dry adiabats: the grid \<^verbatim>\<open>all\<close> of pairs \<open>(d, p)\<close>, and the \<^verbatim>\<open>dryline\<close> generator whose
  x accessor computes \<open>xVal\<close> and returns 0 when \<^verbatim>\<open>isNaN(xVal)\<close>.\<close>

definition dryad_grid :: "jsnum \<Rightarrow> jsnum \<Rightarrow> (jsnum \<times> jsnum) list list" where
  "dryad_grid topp' basep =
     (let pp = d3_range topp' (js_add basep (Fin 1)) (Fin 10);
          dryad = d3_range_int (- 30) 240 20
      in map (\<lambda>d. map (\<lambda>p. (Fin (of_int d), p)) pp) dryad)"

definition dryline_xVal :: "scale \<Rightarrow> scale \<Rightarrow> jsnum \<Rightarrow> jsnum \<Rightarrow> jsnum \<times> jsnum \<Rightarrow> jsnum" where
  "dryline_xVal x y basep tang dp =
     (case dp of (d, p) \<Rightarrow>
        js_add
          (x (js_sub (js_div (js_add (Fin 273.15) d) (js_pow_0286 (js_div (Fin 1000) p)))
                (Fin 273.15)))
          (js_div (js_sub (y basep) (y p)) tang))"

definition dryline_x :: "scale \<Rightarrow> scale \<Rightarrow> jsnum \<Rightarrow> jsnum \<Rightarrow> jsnum \<times> jsnum \<Rightarrow> jsnum" where
  "dryline_x x y basep tang dp =
     (let xVal = dryline_xVal x y basep tang dp in if js_isNaN xVal then Fin 0 else xVal)"

definition dryline :: "scale \<Rightarrow> scale \<Rightarrow> jsnum \<Rightarrow> jsnum \<Rightarrow> (jsnum \<times> jsnum) list \<Rightarrow> point list list" where
  "dryline x y basep tang z =
     d3_line (\<lambda>_. True) (dryline_x x y basep tang) (\<lambda>dp. y (snd dp)) z"

definition dryadiabats :: "scale \<Rightarrow> scale \<Rightarrow> jsnum \<Rightarrow> jsnum \<Rightarrow> jsnum \<Rightarrow> point list list list" where
  "dryadiabats x y basep tang topp' =
     map (dryline x y basep tang) (dryad_grid topp' basep)"

section \<open>Profile lines (drawTempDewLines, drawLines)\<close>

text \<open>The definedness test of a field: \<^verbatim>\<open>typeof v === 'number' && v > -1000\<close>.\<close>

definition defined_field :: "jsnum option \<Rightarrow> bool" where
  "defined_field v = (case v of None \<Rightarrow> False | Some t \<Rightarrow> js_gt t (Fin (- 1000)))"

text \<open>\<^verbatim>\<open>skewtline\<close>: the samples kept by the filter on both temperature and dew point.
  Both the component and the utility draw their lines from it.\<close>

definition skewtline :: "SkewTMeasurement list \<Rightarrow> SkewTMeasurement list" where
  "skewtline data = filter (\<lambda>d. defined_field (temp d) \<and> defined_field (dwpt d)) data"

text \<open>The x accessors of \<^verbatim>\<open>templine\<close> and \<^verbatim>\<open>dewline\<close>. An absent field gives \<^verbatim>\<open>NaN\<close>
  (arithmetic on \<^verbatim>\<open>undefined\<close>); the generator asks only for defined samples.\<close>

definition field_x :: "scale \<Rightarrow> scale \<Rightarrow> jsnum \<Rightarrow> jsnum \<Rightarrow> jsnum option \<Rightarrow> jsnum \<Rightarrow> jsnum" where
  "field_x x y basep tang v p =
     (case v of
        None \<Rightarrow> NaN
      | Some t \<Rightarrow> js_add (x t) (js_div (js_sub (y basep) (y p)) tang))"

definition templine_x :: "scale \<Rightarrow> scale \<Rightarrow> jsnum \<Rightarrow> jsnum \<Rightarrow> SkewTMeasurement \<Rightarrow> jsnum" where
  "templine_x x y basep tang d = field_x x y basep tang (temp d) (press d)"

definition dewline_x :: "scale \<Rightarrow> scale \<Rightarrow> jsnum \<Rightarrow> jsnum \<Rightarrow> SkewTMeasurement \<Rightarrow> jsnum" where
  "dewline_x x y basep tang d = field_x x y basep tang (dwpt d) (press d)"

definition templine :: "scale \<Rightarrow> scale \<Rightarrow> jsnum \<Rightarrow> jsnum \<Rightarrow> SkewTMeasurement list \<Rightarrow> point list list" where
  "templine x y basep tang ds =
     d3_line (\<lambda>d. defined_field (temp d)) (templine_x x y basep tang) (\<lambda>d. y (press d)) ds"

definition dewline :: "scale \<Rightarrow> scale \<Rightarrow> jsnum \<Rightarrow> jsnum \<Rightarrow> SkewTMeasurement list \<Rightarrow> point list list" where
  "dewline x y basep tang ds =
     d3_line (\<lambda>d. defined_field (dwpt d)) (dewline_x x y basep tang) (\<lambda>d. y (press d)) ds"

text \<open>\<^verbatim>\<open>drawTempDewLines\<close>: the two paths drawn for the one profile \<^verbatim>\<open>skewtlines = [skewtline]\<close>.\<close>

definition drawTempDewLines :: "SkewTMeasurement list \<Rightarrow> scale \<Rightarrow> scale \<Rightarrow> jsnum \<Rightarrow> jsnum \<Rightarrow> point list list \<times> point list list" where
  "drawTempDewLines data x y basep tang =
     (templine x y basep tang (skewtline data), dewline x y basep tang (skewtline data))"

section \<open>Wind barbs (utils/windBarbs.ts, src/index.ts)\<close>

text \<open>Decimal text of an integer, as \<^verbatim>\<open>'barb' + d\<close> needs it.\<close>

definition digit_char :: "nat \<Rightarrow> char" where
  "digit_char n = ''0123456789'' ! n"

fun show_nat :: "nat \<Rightarrow> string" where
  "show_nat n = (if n < 10 then [digit_char n] else show_nat (n div 10) @ [digit_char (n mod 10)])"

definition show_int :: "int \<Rightarrow> string" where
  "show_int i = (if i < 0 then CHR ''-'' # show_nat (nat (- i)) else show_nat (nat i))"

text \<open>Number to string (ECMAScript \<^verbatim>\<open>Number::toString\<close>, radix 10). An integer below
  \<open>2^53\<close> in magnitude is printed with all its digits. For any other finite value the
  digits are the shortest ones that read back as the same double: integers \<open>n\<close>, \<open>k\<close>,
  \<open>s\<close> with \<open>k \<ge> 1\<close>, \<open>10^(k-1) \<le> s < 10^k\<close> and \<open>s * 10^(n-k)\<close> rounding to the value,
  \<open>k\<close> as small as possible (where several \<open>s\<close> qualify, the choice among them is left
  open); they are laid out plainly for \<open>-5 \<le> n \<le> 21\<close> and in exponent form
  otherwise. A real that is no double has no digits and no text.\<close>

definition digits_of :: "real \<Rightarrow> int \<Rightarrow> nat \<Rightarrow> nat \<Rightarrow> bool" where
  "digits_of a n k s \<longleftrightarrow>
     1 \<le> k \<and> 10 ^ (k - 1) \<le> s \<and> s < 10 ^ k \<and> fl (real s * 10 powr (of_int n - real k)) = a"

definition shortest_digits :: "real \<Rightarrow> int \<times> nat \<times> nat \<Rightarrow> bool" where
  "shortest_digits a t =
     (case t of (n, k, s) \<Rightarrow>
        digits_of a n k s \<and> \<not> (\<exists>n' k' s'. digits_of a n' k' s' \<and> k' < k))"

definition format_digits :: "int \<times> nat \<times> nat \<Rightarrow> string" where
  "format_digits t =
     (case t of (n, k, s) \<Rightarrow>
        if - 5 \<le> n \<and> n \<le> 21 then
          (if int k \<le> n then show_nat s @ replicate (nat (n - int k)) CHR ''0''
           else if 0 < n then take (nat n) (show_nat s) @ ''.'' @ drop (nat n) (show_nat s)
           else ''0.'' @ replicate (nat (- n)) CHR ''0'' @ show_nat s)
        else
          (if k = 1 then show_nat s else hd (show_nat s) # CHR ''.'' # tl (show_nat s))
          @ ''e'' @ (if 0 \<le> n - 1 then ''+'' else ''-'') @ show_nat (nat \<bar>n - 1\<bar>))"

definition js_pos_text :: "real \<Rightarrow> string" where
  "js_pos_text a =
     (if \<exists>t. shortest_digits a t then format_digits (SOME t. shortest_digits a t) else [])"

definition js_toString :: "jsnum \<Rightarrow> string" where
  "js_toString v =
     (case v of
        NaN \<Rightarrow> ''NaN''
      | PInf \<Rightarrow> ''Infinity''
      | NInf \<Rightarrow> ''-Infinity''
      | Fin a \<Rightarrow>
          (if a = of_int \<lfloor>a\<rfloor> \<and> \<bar>a\<bar> < 2 ^ 53 then show_int \<lfloor>a\<rfloor>
           else if a < 0 then CHR ''-'' # js_pos_text (- a)
           else js_pos_text a))"

text \<open>The shapes of a glyph: \<^verbatim>\<open>line\<close> with its attributes in the order the source sets
  them (x1, x2, y1, y2) and \<^verbatim>\<open>polyline\<close> with its points.\<close>

datatype shape = Line jsnum jsnum jsnum jsnum | Polyline "point list"

record glyph =
  glyph_id :: string
  shapes :: "shape list"

text \<open>The three loops of \<^verbatim>\<open>makeWindbarbs\<close>; each returns the shapes it appended and the
  value of \<^verbatim>\<open>px\<close> it leaves.\<close>

fun flag_loop :: "nat \<Rightarrow> jsnum \<Rightarrow> shape list \<times> jsnum" where
  "flag_loop 0 px = ([], px)"
| "flag_loop (Suc n) px =
     (case flag_loop n (js_sub px (Fin 7)) of
        (ss, px') \<Rightarrow>
          (Polyline [(Fin 0, px), (Fin (- 10), px), (Fin 0, js_sub px (Fin 4))] # ss, px'))"

fun pennant_loop :: "nat \<Rightarrow> jsnum \<Rightarrow> shape list \<times> jsnum" where
  "pennant_loop 0 px = ([], px)"
| "pennant_loop (Suc n) px =
     (case pennant_loop n (js_sub px (Fin 3)) of
        (ss, px') \<Rightarrow> (Line (Fin 0) (Fin (- 10)) px (js_add px (Fin 4)) # ss, px'))"

fun halfpennant_loop :: "nat \<Rightarrow> jsnum \<Rightarrow> shape list \<times> jsnum" where
  "halfpennant_loop 0 px = ([], px)"
| "halfpennant_loop (Suc n) px =
     (case halfpennant_loop n (js_sub px (Fin 3)) of
        (ss, px') \<Rightarrow> (Line (Fin 0) (Fin (- 5)) px (js_add px (Fin 2)) # ss, px'))"

definition barb_flags :: "int \<Rightarrow> int" where
  "barb_flags d = \<lfloor>(of_int d :: real) / 50\<rfloor>"

definition barb_pennants :: "int \<Rightarrow> int" where
  "barb_pennants d = \<lfloor>(of_int (d - barb_flags d * 50) :: real) / 10\<rfloor>"

definition barb_halfpennants :: "int \<Rightarrow> int" where
  "barb_halfpennants d = \<lfloor>(of_int (d - barb_flags d * 50 - barb_pennants d * 10) :: real) / 5\<rfloor>"

text \<open>The body of \<^verbatim>\<open>speeds.forEach\<close>: the glyph of one bucket, with the final \<^verbatim>\<open>px\<close>.\<close>

definition make_barb :: "jsnum \<Rightarrow> int \<Rightarrow> glyph \<times> jsnum" where
  "make_barb barbsize d =
     (case flag_loop (nat (barb_flags d)) barbsize of (fs, px1) \<Rightarrow>
      case pennant_loop (nat (barb_pennants d)) px1 of (ps, px2) \<Rightarrow>
      case halfpennant_loop (nat (barb_halfpennants d)) px2 of (hs, px3) \<Rightarrow>
        (\<lparr>glyph_id = ''barb'' @ show_int d,
          shapes = Line (Fin 0) (Fin 0) (Fin 0) barbsize # fs @ ps @ hs\<rparr>, px3))"

definition speeds :: "int list" where
  "speeds = d3_range_int 5 105 5"

definition makeWindbarbs :: "jsnum \<Rightarrow> glyph list" where
  "makeWindbarbs barbsize = map (\<lambda>d. fst (make_barb barbsize d)) speeds"

text \<open>A placed barb: the \<^verbatim>\<open>use\<close> element's reference and its transform
  \<^verbatim>\<open>translate(tx,ty) rotate(rot)\<close>.\<close>

record use_elem =
  href :: string
  tx :: jsnum
  ty :: jsnum
  rot :: jsnum

definition barb_filter :: "jsnum \<Rightarrow> SkewTMeasurement \<Rightarrow> bool" where
  "barb_filter topp' d =
     (case (wdir d, wspd d) of
        (Some wd, Some ws) \<Rightarrow> js_ge wd (Fin 0) \<and> js_ge ws (Fin 0) \<and> js_ge (press d) topp'
      | _ \<Rightarrow> False)"

text \<open>\<^verbatim>\<open>Math.round(convertWindSpeed(d.wspd, 'kt') / 5) * 5\<close> in double precision: the
  quotient and the final product are rounded, \<^verbatim>\<open>Math.round\<close> is exact.\<close>

definition barb_kts :: "jsnum \<Rightarrow> jsnum" where
  "barb_kts ws =
     dbl_num (js_mul (js_round (dbl_num (js_div (convertWindSpeed_dbl ws ''kt'') (Fin 5)))) (Fin 5))"

text \<open>The two attribute functions of a placed barb. They run only on samples that passed
  the filter, where both wind fields are present; for an absent field the utility's
  arithmetic on \<^verbatim>\<open>undefined\<close> gives \<^verbatim>\<open>NaN\<close>.\<close>

definition place_barb :: "jsnum \<Rightarrow> scale \<Rightarrow> SkewTMeasurement \<Rightarrow> use_elem" where
  "place_barb w y d =
     \<lparr>href = (case wspd d of None \<Rightarrow> ''#barbNaN'' | Some ws \<Rightarrow> ''#barb'' @ js_toString (barb_kts ws)),
      tx = w, ty = y (press d),
      rot = (case wdir d of None \<Rightarrow> NaN | Some wd \<Rightarrow> js_add wd (Fin 180))\<rparr>"

text \<open>\<^verbatim>\<open>drawWindBarbs\<close> of utils/windBarbs.ts filters the data it is given.\<close>

definition drawWindBarbs :: "SkewTMeasurement list \<Rightarrow> jsnum \<Rightarrow> jsnum \<Rightarrow> scale \<Rightarrow> use_elem list" where
  "drawWindBarbs data topp' w y = map (place_barb w y) (filter (barb_filter topp') data)"

text \<open>The component's \<^verbatim>\<open>drawLines\<close> takes its barbs from \<^verbatim>\<open>skewtline\<close>.\<close>

definition drawLines_barbs :: "SkewTMeasurement list \<Rightarrow> jsnum \<Rightarrow> jsnum \<Rightarrow> scale \<Rightarrow> use_elem list" where
  "drawLines_barbs data topp' w y =
     map (place_barb w y) (filter (barb_filter topp') (skewtline data))"

text \<open>A \<^verbatim>\<open>use\<close> element shows the glyph whose id its reference names, if there is one.\<close>

definition resolve_href :: "glyph list \<Rightarrow> string \<Rightarrow> glyph option" where
  "resolve_href defs ref = find (\<lambda>g. CHR ''#'' # glyph_id g = ref) defs"

section \<open>Probe lookup (setupTooltips)\<close>

datatype error = TypeError

text \<open>\<^verbatim>\<open>d3.bisector(d => d.press).left(a, x, lo, hi)\<close>: the binary search for an array in
  ascending order of pressure. \<^verbatim>\<open>(lo + hi) >>> 1\<close> is the halved sum for the indices
  met here; reading \<^verbatim>\<open>press\<close> of an element outside the array throws.\<close>

function bisect_loop :: "SkewTMeasurement list \<Rightarrow> jsnum \<Rightarrow> int \<Rightarrow> int \<Rightarrow> error + int" where
  "bisect_loop a x lo hi =
     (if lo < hi then
        (let mid = (lo + hi) div 2 in
         if mid < 0 \<or> int (length a) \<le> mid then Inl TypeError
         else if js_lt (press (a ! nat mid)) x then bisect_loop a x (mid + 1) hi
         else bisect_loop a x lo mid)
      else Inr lo)"
  by pat_completeness auto
termination
  by (relation "measure (\<lambda>(a, x, lo, hi). nat (hi - lo))") auto

definition bisectTemp :: "SkewTMeasurement list \<Rightarrow> jsnum \<Rightarrow> int \<Rightarrow> int \<Rightarrow> error + int" where
  "bisectTemp a x lo hi =
     (if lo < hi then (if js_isNaN x then Inr hi else bisect_loop a x lo hi) else Inr lo)"

text \<open>\<^verbatim>\<open>data[i]\<close>: \<^verbatim>\<open>undefined\<close> outside the array.\<close>

definition js_index :: "'a list \<Rightarrow> int \<Rightarrow> 'a option" where
  "js_index xs i = (if 0 \<le> i \<and> i < int (length xs) then Some (xs ! nat i) else None)"

text \<open>The choice between the two candidates.\<close>

definition nearer :: "jsnum \<Rightarrow> SkewTMeasurement \<Rightarrow> SkewTMeasurement \<Rightarrow> SkewTMeasurement" where
  "nearer y0 d0 d1 =
     (if js_lt (js_abs (js_sub y0 (press d0))) (js_abs (js_sub y0 (press d1))) then d0 else d1)"

text \<open>The \<^verbatim>\<open>mousemove\<close> handler of the component, up to the choice of the sample \<open>d\<close> whose
  fields the readouts show: \<open>Inr None\<close> is the early \<^verbatim>\<open>return\<close>, after which no readout
  is written. It searches \<^verbatim>\<open>skewtline\<close>.\<close>

definition mousemove_component :: "SkewTMeasurement list \<Rightarrow> jsnum \<Rightarrow> error + SkewTMeasurement option" where
  "mousemove_component sl y0 =
     (case bisectTemp sl y0 1 (int (length sl) - 1) of
        Inl e \<Rightarrow> Inl e
      | Inr i \<Rightarrow>
          if i \<le> 0 \<or> int (length sl) \<le> i then Inr None
          else (case (js_index sl (i - 1), js_index sl i) of
                  (Some d0, Some d1) \<Rightarrow> Inr (Some (nearer y0 d0 d1))
                | _ \<Rightarrow> Inl TypeError))"

text \<open>The same handler in utils/drawFunctions.ts, which has no early return: reading
  \<^verbatim>\<open>press\<close> of a candidate that is \<^verbatim>\<open>undefined\<close> throws.\<close>

definition mousemove_utils :: "SkewTMeasurement list \<Rightarrow> jsnum \<Rightarrow> error + SkewTMeasurement option" where
  "mousemove_utils data y0 =
     (case bisectTemp data y0 1 (int (length data) - 1) of
        Inl e \<Rightarrow> Inl e
      | Inr i \<Rightarrow>
          (case (js_index data (i - 1), js_index data i) of
             (Some d0, Some d1) \<Rightarrow> Inr (Some (nearer y0 d0 d1))
           | _ \<Rightarrow> Inl TypeError))"

text \<open>The pointer's pixel row is first taken back to a pressure by \<^verbatim>\<open>y.invert\<close>.\<close>

definition on_mousemove_component :: "scale \<Rightarrow> SkewTMeasurement list \<Rightarrow> jsnum \<Rightarrow> error + SkewTMeasurement option" where
  "on_mousemove_component y_invert data py = mousemove_component (skewtline data) (y_invert py)"

definition on_mousemove_utils :: "scale \<Rightarrow> SkewTMeasurement list \<Rightarrow> jsnum \<Rightarrow> error + SkewTMeasurement option" where
  "on_mousemove_utils y_invert data py = mousemove_utils data (y_invert py)"

text \<open>Samples with only a pressure, and with every field, for the examples.\<close>

definition at_press :: "real \<Rightarrow> SkewTMeasurement" where
  "at_press p = \<lparr>press = Fin p, hght = None, temp = None, dwpt = None, wdir = None, wspd = None\<rparr>"

definition sample :: "real \<Rightarrow> real \<Rightarrow> real \<Rightarrow> real \<Rightarrow> real \<Rightarrow> SkewTMeasurement" where
  "sample p t td wd ws =
     \<lparr>press = Fin p, hght = None, temp = Some (Fin t), dwpt = Some (Fin td),
      wdir = Some (Fin wd), wspd = Some (Fin ws)\<rparr>"

definition nan_sample :: SkewTMeasurement where
  "nan_sample = \<lparr>press = NaN, hght = None, temp = None, dwpt = None, wdir = None, wspd = None\<rparr>"

text \<open>The profile of the README's example.\<close>

definition readme_profile :: "SkewTMeasurement list" where
  "readme_profile = [sample 1000 25 20 160 5, sample 850 14 8 220 12, sample 700 2 (- 5) 250 25]"

section \<open>The frame of the component and the formulas of the specification\<close>

text \<open>The component's frame for the default size 750 by 620 and the README's profile:
  \<open>w = 750 - 30 - 40\<close>, \<open>h = 620 - 30 - 20 - 50\<close>, base pressure 1050, top pressure 690,
  skew angle 55 degrees.\<close>

definition frame_x :: scale where
  "frame_x = scaleLinear (Fin (- 70)) (Fin 50) (Fin 0) (Fin 680)"

definition frame_y :: scale where
  "frame_y = scaleLog (Fin 690) (Fin 1050) (Fin 0) (Fin 520)"

definition frame_tan :: jsnum where
  "frame_tan = Fin (tan (55 * (pi / 180)))"

text \<open>The specification's skew formula
  \<open>screenX = x(temperature) + (y(basePressure) - y(pressure)) / tan(skewAngle)\<close> and its
  display temperature of a dry adiabat,
  \<open>T(p) = (theta + 273.15) / (1000 / p)^0.286 - 273.15\<close>, written from its words.\<close>

definition spec_screenX :: "scale \<Rightarrow> scale \<Rightarrow> jsnum \<Rightarrow> jsnum \<Rightarrow> jsnum \<Rightarrow> jsnum \<Rightarrow> jsnum" where
  "spec_screenX x y basep tang t p = js_add (x t) (js_div (js_sub (y basep) (y p)) tang)"

definition spec_displayTemp :: "jsnum \<Rightarrow> jsnum \<Rightarrow> jsnum" where
  "spec_displayTemp theta p =
     js_sub (js_div (js_add theta (Fin 273.15)) (js_pow_0286 (js_div (Fin 1000) p))) (Fin 273.15)"

text \<open>A profile whose middle sample has no temperature, and a sample with wind only.\<close>

definition gap_sample :: SkewTMeasurement where
  "gap_sample = \<lparr>press = Fin 850, hght = None, temp = None, dwpt = Some (Fin 8),
                 wdir = Some (Fin 220), wspd = Some (Fin 12)\<rparr>"

definition gap_profile :: "SkewTMeasurement list" where
  "gap_profile = [sample 1000 25 20 160 5, gap_sample, sample 700 2 (- 5) 250 25]"

definition wind_only :: SkewTMeasurement where
  "wind_only = \<lparr>press = Fin 850, hght = None, temp = None, dwpt = None,
                wdir = Some (Fin 220), wspd = Some (Fin 12)\<rparr>"

text \<open>The shapes the loops draw, by position: the \<open>i\<close>-th flag of a walk that starts at
  \<open>px = b\<close>, and the \<open>i\<close>-th pennant and half-pennant likewise.\<close>

definition flag_at :: "real \<Rightarrow> nat \<Rightarrow> shape" where
  "flag_at b i = Polyline [(Fin 0, Fin (b - 7 * real i)), (Fin (- 10), Fin (b - 7 * real i)),
                          (Fin 0, Fin (b - 7 * real i - 4))]"

definition pennant_at :: "real \<Rightarrow> nat \<Rightarrow> shape" where
  "pennant_at b i = Line (Fin 0) (Fin (- 10)) (Fin (b - 3 * real i)) (Fin (b - 3 * real i + 4))"

definition halfpennant_at :: "real \<Rightarrow> nat \<Rightarrow> shape" where
  "halfpennant_at b i = Line (Fin 0) (Fin (- 5)) (Fin (b - 3 * real i)) (Fin (b - 3 * real i + 2))"

section \<open>Facts about the number operations\<close>

lemma js_lt_irrefl: "\<not> js_lt a a"
  by (cases a) auto

lemma js_not_lt_trans:
  "\<not> js_isNaN a \<Longrightarrow> \<not> js_isNaN b \<Longrightarrow> \<not> js_isNaN c \<Longrightarrow>
   \<not> js_lt a b \<Longrightarrow> \<not> js_lt b c \<Longrightarrow> \<not> js_lt a c"
  by (cases a; cases b; cases c) auto

lemma js_le_iff_not_lt:
  "\<not> js_isNaN a \<Longrightarrow> \<not> js_isNaN b \<Longrightarrow> js_le a b \<longleftrightarrow> \<not> js_lt b a"
  by (cases a; cases b) (auto simp: js_le_def)

section \<open>Facts about rounding to double precision\<close>

lemma rne_err: "\<bar>of_int (rne r) - r\<bar> \<le> 1 / 2"
  unfolding rne_def Let_def by (auto simp: abs_real_def) linarith+

lemma rne_of_int: "rne (of_int j) = j"
  by (simp add: rne_def)

lemma fl_ulp_pos: "0 < fl_ulp x"
  by (simp add: fl_ulp_def)

lemma fl_err_ulp: "\<bar>fl x - x\<bar> \<le> fl_ulp x / 2"
proof (cases "x = 0")
  case True
  then show ?thesis using fl_ulp_pos [of x] by (simp add: fl_def)
next
  case False
  let ?u = "fl_ulp x"
  have u: "0 < ?u" by (rule fl_ulp_pos)
  have "fl x - x = ?u * (of_int (rne (x / ?u)) - x / ?u)"
    using False u by (simp add: fl_def algebra_simps)
  then have "\<bar>fl x - x\<bar> = ?u * \<bar>of_int (rne (x / ?u)) - x / ?u\<bar>"
    using u by (simp add: abs_mult)
  also have "\<dots> \<le> ?u * (1 / 2)"
    using u rne_err [of "x / ?u"] by (intro mult_left_mono) simp_all
  finally show ?thesis by simp
qed

lemma fl_ulp_le: 
  assumes "x \<noteq> 0"
  shows "fl_ulp x \<le> \<bar>x\<bar> * 2 powr (- 52) + 2 powr (- 1074)"
proof (cases "- 1022 \<le> \<lfloor>log 2 \<bar>x\<bar>\<rfloor>")
  case True
  then have "fl_exp x = \<lfloor>log 2 \<bar>x\<bar>\<rfloor>" by (simp add: fl_exp_def)
  then have "fl_ulp x = 2 powr (of_int \<lfloor>log 2 \<bar>x\<bar>\<rfloor> - 52)" by (simp add: fl_ulp_def)
  also have "\<dots> \<le> 2 powr (log 2 \<bar>x\<bar> - 52)"
    by (intro powr_mono) simp_all
  also have "\<dots> = \<bar>x\<bar> * 2 powr (- 52)"
    using assms by (simp add: powr_diff powr_minus field_simps)
  finally show ?thesis
    by (smt (verit) powr_gt_zero)
next
  case False
  then have "fl_exp x = - 1022" by (simp add: fl_exp_def)
  then have "fl_ulp x = 2 powr (- 1074)" by (simp add: fl_ulp_def)
  then show ?thesis using assms by simp
qed

lemma pow_bounds: "(2::real) powr (- 52) / 2 \<le> 1 / 10 ^ 15" "(2::real) powr (- 1074) / 2 \<le> 1 / 10 ^ 15"
proof -
  have a: "(2::real) powr (- 52) = 1 / 2 ^ 52"
    by (simp only: powr_neg_numeral)
  show first: "(2::real) powr (- 52) / 2 \<le> 1 / 10 ^ 15" unfolding a by simp
  have "(2::real) powr (- 1074) \<le> 2 powr (- 52)"
    by (rule powr_mono) simp_all
  then have "(2::real) powr (- 1074) / 2 \<le> 2 powr (- 52) / 2"
    by (rule divide_right_mono) simp
  with first show "(2::real) powr (- 1074) / 2 \<le> 1 / 10 ^ 15"
    by (rule order_trans [rotated])
qed

lemma fl_err: "\<bar>fl x - x\<bar> \<le> \<bar>x\<bar> / 10 ^ 15 + 1 / 10 ^ 15"
proof (cases "x = 0")
  case True
  then show ?thesis by (simp add: fl_def)
next
  case False
  have "\<bar>fl x - x\<bar> \<le> (\<bar>x\<bar> * 2 powr (- 52) + 2 powr (- 1074)) / 2"
    using fl_err_ulp [of x] fl_ulp_le [OF False] by simp
  also have "\<dots> = \<bar>x\<bar> * (2 powr (- 52) / 2) + 2 powr (- 1074) / 2"
    by (simp add: algebra_simps add_divide_distrib)
  also have "\<dots> \<le> \<bar>x\<bar> * (1 / 10 ^ 15) + 1 / 10 ^ 15"
    by (intro add_mono mult_left_mono pow_bounds) simp
  finally show ?thesis by simp
qed

lemma fl_int_exact:
  assumes "\<bar>m\<bar> < 2 ^ 53"
  shows "fl (of_int m) = of_int m"
proof (cases "m = 0")
  case True
  then show ?thesis by (simp add: fl_def)
next
  case False
  let ?x = "of_int m :: real"
  have pos: "0 < \<bar>?x\<bar>" using False by simp
  have "\<bar>?x\<bar> < 2 ^ 53" using assms by (metis of_int_abs of_int_less_numeral_power_cancel_iff) 
  then have "\<bar>?x\<bar> < 2 powr 53" by (simp add: powr_realpow [symmetric])
  then have "log 2 \<bar>?x\<bar> < 53"
    using pos by (simp add: log_less_iff)
  then have "\<lfloor>log 2 \<bar>?x\<bar>\<rfloor> \<le> 52" by (simp add: floor_less_iff) 
  then have e: "fl_exp ?x \<le> 52" "- 1022 \<le> fl_exp ?x" by (simp_all add: fl_exp_def)
  define j where "j = nat (52 - fl_exp ?x)"
  have je: "of_int (fl_exp ?x) - 52 = - real j" using e by (simp add: j_def)
  have u: "fl_ulp ?x = 1 / 2 ^ j"
    unfolding fl_ulp_def je by (simp add: powr_minus powr_realpow divide_inverse)
  have q: "?x / fl_ulp ?x = of_int (m * 2 ^ j)" by (simp add: u)
  show ?thesis
    using False unfolding fl_def q rne_of_int by (simp add: u)
qed

lemma dbl_Fin: "\<bar>fl x\<bar> < 2 ^ 1024 \<Longrightarrow> dbl x = Fin (fl x)"
  by (auto simp: dbl_def)

lemma dbl_moderate:
  assumes "- (10 ^ 4) \<le> x" and "x \<le> 10 ^ 4"
  shows "dbl x = Fin (fl x)" and "x - 2 / 10 ^ 11 \<le> fl x" and "fl x \<le> x + 2 / 10 ^ 11"
proof -
  have "\<bar>x\<bar> / 10 ^ 15 \<le> 1 / 10 ^ 11" using assms by (simp add: abs_if)
  with fl_err [of x] have e: "\<bar>fl x - x\<bar> \<le> 2 / 10 ^ 11" by simp
  then show lo: "x - 2 / 10 ^ 11 \<le> fl x" and hi: "fl x \<le> x + 2 / 10 ^ 11"
    by linarith+
  from lo hi assms have "- (10 ^ 4 + 1) \<le> fl x" "fl x \<le> 10 ^ 4 + 1" by simp_all
  then have "\<bar>fl x\<bar> \<le> 10 ^ 4 + 1" by (simp only: abs_le_iff) simp
  also have "\<dots> < (2::real) ^ 1024" by simp
  finally show "dbl x = Fin (fl x)" by (rule dbl_Fin)
qed

lemma dbl_lower:
  assumes "1 \<le> x"
  shows "dbl x = PInf \<or> (\<exists>v. dbl x = Fin v \<and> x - x / 10 ^ 15 - 1 / 10 ^ 15 \<le> v)"
proof -
  from fl_err [of x] assms have lo: "x - x / 10 ^ 15 - 1 / 10 ^ 15 \<le> fl x" by simp
  have "0 \<le> x - x / 10 ^ 15 - 1 / 10 ^ 15" using assms by (simp add: field_simps)
  with lo have "0 \<le> fl x" by simp
  then have "\<not> fl x \<le> - (2 ^ 1024)" by simp
  with lo show ?thesis by (auto simp: dbl_def)
qed

section \<open>Unit conversion\<close>

text \<open>
  C9. For every number \<open>v\<close>, \<open>convertWindSpeed v unit\<close> is \<open>v * 1.943844492\<close> for the
  unit \<open>kt\<close>, \<open>v * 3.6\<close> for \<open>kmh\<close>, and \<open>v\<close> itself for every other unit token; 10 m/s
  is 19.43844492 kt and 36 km/h, and stays 10 for the tokens \<open>ms\<close> and \<open>unknown\<close>.
\<close>

theorem convertWindSpeed_contract:
  "convertWindSpeed v ''kt'' = js_mul v (Fin 1.943844492) \<and>
   convertWindSpeed v ''kmh'' = js_mul v (Fin 3.6) \<and>
   (u \<noteq> ''kt'' \<and> u \<noteq> ''kmh'' \<longrightarrow> convertWindSpeed v u = v) \<and>
   convertWindSpeed (Fin 10) ''kt'' = Fin 19.43844492 \<and>
   convertWindSpeed (Fin 10) ''kmh'' = Fin 36 \<and>
   convertWindSpeed (Fin 10) ''ms'' = Fin 10 \<and>
   convertWindSpeed (Fin 10) ''unknown'' = Fin 10"
  by (simp add: convertWindSpeed_def)

theorem convertWindSpeed_contract_witness:
  "''mph'' \<noteq> ''kt'' \<and> ''mph'' \<noteq> ''kmh'' \<and> convertWindSpeed NaN ''mph'' = NaN \<and>
   convertWindSpeed PInf ''kt'' = PInf"
  using convertWindSpeed_contract [of PInf "''mph''"] convertWindSpeed_contract [of NaN "''mph''"]
  by (simp add: js_inf_def)

section \<open>Top pressure\<close>

lemma foldl_min_step:
  assumes "\<not> js_isNaN acc" and "\<forall>d\<in>set ds. \<not> js_isNaN (press d)"
  shows "let r = foldl (\<lambda>mn current. if js_lt (press current) mn then press current else mn) acc ds
   in (r = acc \<or> r \<in> press ` set ds) \<and> \<not> js_lt acc r \<and> (\<forall>d\<in>set ds. \<not> js_lt (press d) r)"
  using assms
proof (induction ds arbitrary: acc)
  case Nil
  show ?case by (simp add: js_lt_irrefl)
next
  case (Cons d ds)
  let ?f = "\<lambda>mn current. if js_lt (press current) mn then press current else mn"
  let ?acc' = "?f acc d"
  let ?r = "foldl ?f ?acc' ds"
  have nan': "\<not> js_isNaN ?acc'" using Cons.prems by simp
  from Cons.IH [of ?acc'] nan' Cons.prems(2)
  have mem: "?r = ?acc' \<or> ?r \<in> press ` set ds"
    and le: "\<not> js_lt ?acc' ?r"
    and low: "\<forall>e\<in>set ds. \<not> js_lt (press e) ?r"
    by (simp_all add: Let_def)
  have nanr: "\<not> js_isNaN ?r"
    using mem nan' Cons.prems(2) by auto
  have a1: "?r = acc \<or> ?r \<in> press ` set (d # ds)"
    using mem by (auto split: if_splits)
  have nd: "\<not> js_isNaN (press d)" using Cons.prems(2) by simp
  have a2: "\<not> js_lt acc ?r"
  proof (cases "js_lt (press d) acc")
    case True
    then have "\<not> js_lt acc (press d)"
      by (cases acc; cases "press d") auto
    moreover from True le have "\<not> js_lt (press d) ?r" by simp
    ultimately show ?thesis
      using js_not_lt_trans [OF Cons.prems(1) nd nanr] by blast
  next
    case False
    with le show ?thesis by simp
  qed
  have a3: "\<not> js_lt (press d) ?r"
  proof (cases "js_lt (press d) acc")
    case True
    with le show ?thesis by simp
  next
    case False
    with le have "\<not> js_lt acc ?r" by simp
    with False show ?thesis
      using js_not_lt_trans [OF nd Cons.prems(1) nanr] by blast
  qed
  show ?case using a1 a2 a3 low by (simp add: Let_def)
qed

lemma getSmallest_is_min:
  assumes "data \<noteq> []" and "\<forall>d\<in>set data. \<not> js_isNaN (press d)"
  shows "\<exists>m\<in>set data. (\<forall>d\<in>set data. js_le (press m) (press d)) \<and>
           getSmallestPressureValue data = press m"
proof -
  obtain m0 rest where data: "data = m0 # rest"
    using assms(1) by (cases data) auto
  let ?f = "\<lambda>mn current. if js_lt (press current) mn then press current else mn"
  let ?r = "foldl ?f (press m0) data"
  have r: "getSmallestPressureValue data = ?r"
    by (simp add: getSmallestPressureValue_def data)
  have n0: "\<not> js_isNaN (press m0)" using assms(2) data by simp
  from foldl_min_step [OF n0 assms(2)]
  have mem: "?r = press m0 \<or> ?r \<in> press ` set data"
    and low: "\<forall>d\<in>set data. \<not> js_lt (press d) ?r"
    by (simp_all add: Let_def)
  from mem obtain m where m: "m \<in> set data" "?r = press m"
    using data by auto
  have "\<forall>d\<in>set data. js_le (press m) (press d)"
    using low m assms(2) by (simp add: js_le_iff_not_lt)
  with m r show ?thesis by auto
qed

text \<open>
  C7, as stated, fails when a pressure is \<open>NaN\<close>: the comparison \<open>current.press < min\<close>
  is then false, so a leading \<open>NaN\<close> stays the running minimum and the top pressure is
  \<open>NaN\<close>, which is not at least 50, while the same two samples in the other order give
  490. No minimum of the pressures, which does not depend on their order, gives both.
\<close>

theorem topp_NaN_counterexample:
  "topp [nan_sample, at_press 500] = NaN \<and>
   \<not> js_ge (topp [nan_sample, at_press 500]) (Fin 50) \<and>
   topp [at_press 500, nan_sample] = Fin 490 \<and>
   topp [nan_sample, at_press 500] \<noteq> topp [at_press 500, nan_sample]"
  by (simp add: topp_def getSmallestPressureValue_def nan_sample_def at_press_def
      js_max_def js_sub_def js_ge_def js_le_def)

text \<open>
  C7, amended. For a non-empty profile in which no pressure is \<open>NaN\<close>, the top
  pressure is \<open>max(50, minPressure - 10)\<close>, where \<open>minPressure\<close> is the pressure of a
  sample that no sample's pressure is below: for a finite minimum \<open>p\<close> it is \<open>p - 10\<close>
  when that is above 50 and 50 otherwise; a minimum of 700 hPa gives 690 hPa.
\<close>

theorem topp_from_min_pressure:
  assumes "data \<noteq> []" and "\<forall>d\<in>set data. \<not> js_isNaN (press d)"
  shows "\<exists>m\<in>set data. (\<forall>d\<in>set data. js_le (press m) (press d)) \<and>
           (\<forall>d\<in>set data. \<forall>p q. press m = Fin p \<and> press d = Fin q \<longrightarrow> p \<le> q) \<and>
           getSmallestPressureValue data = press m \<and>
           (\<forall>p. press m = Fin p \<longrightarrow> topp data = Fin (max 50 (p - 10))) \<and>
           (press m = PInf \<longrightarrow> topp data = PInf) \<and>
           (press m = NInf \<longrightarrow> topp data = Fin 50) \<and>
           (press m = Fin 700 \<longrightarrow> topp data = Fin 690)"
proof -
  from getSmallest_is_min [OF assms] obtain m where
    m: "m \<in> set data" "\<forall>d\<in>set data. js_le (press m) (press d)"
       "getSmallestPressureValue data = press m"
    by blast
  have t: "topp data = js_max (Fin 50) (js_sub (press m) (Fin 10))"
    by (simp add: topp_def m(3))
  have real_le: "\<forall>d\<in>set data. \<forall>p q. press m = Fin p \<and> press d = Fin q \<longrightarrow> p \<le> q"
    using m(2) by (auto simp: js_le_def)
  have fin: "\<forall>p. press m = Fin p \<longrightarrow> topp data = Fin (max 50 (p - 10))"
    by (auto simp: t js_max_def js_sub_def max_def)
  have inf: "press m = PInf \<longrightarrow> topp data = PInf" "press m = NInf \<longrightarrow> topp data = Fin 50"
    by (simp_all add: t js_max_def js_sub_def)
  have "press m = Fin 700 \<longrightarrow> topp data = Fin 690"
    using fin by simp
  with m real_le fin inf show ?thesis by blast
qed

theorem topp_from_min_pressure_witness:
  "readme_profile \<noteq> [] \<and> list_all (\<lambda>d. \<not> js_isNaN (press d)) readme_profile \<and>
   getSmallestPressureValue readme_profile = Fin 700 \<and> topp readme_profile = Fin 690 \<and>
   getSmallestPressureValue [at_press 1000, at_press 55] = Fin 55 \<and>
   topp [at_press 1000, at_press 55] = Fin 50"
proof -
  have h1: "readme_profile \<noteq> []" by (simp add: readme_profile_def)
  have h2: "\<forall>d\<in>set readme_profile. \<not> js_isNaN (press d)"
    by (simp add: readme_profile_def sample_def)
  have g: "getSmallestPressureValue readme_profile = Fin 700"
    by (simp add: readme_profile_def sample_def getSmallestPressureValue_def)
  have a: "topp readme_profile = Fin 690"
    using topp_from_min_pressure [OF h1 h2] g by (elim bexE conjE) simp
  have k1: "[at_press 1000, at_press 55] \<noteq> []" by simp
  have k2: "\<forall>d\<in>set [at_press 1000, at_press 55]. \<not> js_isNaN (press d)"
    by (simp add: at_press_def)
  have g': "getSmallestPressureValue [at_press 1000, at_press 55] = Fin 55"
    by (simp add: at_press_def getSmallestPressureValue_def)
  have b: "topp [at_press 1000, at_press 55] = Fin 50"
    using topp_from_min_pressure [OF k1 k2] g' by (elim bexE conjE) simp
  from h1 h2 g a g' b show ?thesis by (simp add: list_all_iff)
qed

section \<open>Wind barb glyphs\<close>

lemma map_upt_Suc_shift: "map f [0..<Suc n] = f 0 # map (\<lambda>i. f (Suc i)) [0..<n]"
  by (simp only: map_upt_Suc)

lemma flag_loop_Fin:
  "flag_loop n (Fin b) = (map (flag_at b) [0..<n], Fin (b - 7 * real n))"
proof (induction n arbitrary: b)
  case 0
  show ?case by simp
next
  case (Suc n)
  have shift: "map (flag_at b) [0..<Suc n] = flag_at b 0 # map (\<lambda>i. flag_at b (Suc i)) [0..<n]"
    by (rule map_upt_Suc_shift)
  have fn: "(\<lambda>i. flag_at b (Suc i)) = flag_at (b - 7)"
    by (rule ext) (simp add: flag_at_def algebra_simps)
  have step: "flag_loop (Suc n) (Fin b) =
      (flag_at b 0 # fst (flag_loop n (Fin (b - 7))), snd (flag_loop n (Fin (b - 7))))"
    by (simp add: js_sub_def flag_at_def split: prod.splits)
  have px: "b - 7 - 7 * real n = b - 7 * real (Suc n)"
    by (simp add: algebra_simps)
  show ?case
    unfolding step shift fn Suc [of "b - 7"] fst_conv snd_conv px ..
qed

lemma pennant_loop_Fin:
  "pennant_loop n (Fin b) = (map (pennant_at b) [0..<n], Fin (b - 3 * real n))"
proof (induction n arbitrary: b)
  case 0
  show ?case by simp
next
  case (Suc n)
  have shift: "map (pennant_at b) [0..<Suc n] = pennant_at b 0 # map (\<lambda>i. pennant_at b (Suc i)) [0..<n]"
    by (rule map_upt_Suc_shift)
  have fn: "(\<lambda>i. pennant_at b (Suc i)) = pennant_at (b - 3)"
    by (rule ext) (simp add: pennant_at_def algebra_simps)
  have step: "pennant_loop (Suc n) (Fin b) =
      (pennant_at b 0 # fst (pennant_loop n (Fin (b - 3))), snd (pennant_loop n (Fin (b - 3))))"
    by (simp add: js_sub_def pennant_at_def split: prod.splits)
  have px: "b - 3 - 3 * real n = b - 3 * real (Suc n)"
    by (simp add: algebra_simps)
  show ?case
    unfolding step shift fn Suc [of "b - 3"] fst_conv snd_conv px ..
qed

lemma halfpennant_loop_Fin:
  "halfpennant_loop n (Fin b) = (map (halfpennant_at b) [0..<n], Fin (b - 3 * real n))"
proof (induction n arbitrary: b)
  case 0
  show ?case by simp
next
  case (Suc n)
  have shift: "map (halfpennant_at b) [0..<Suc n] = halfpennant_at b 0 # map (\<lambda>i. halfpennant_at b (Suc i)) [0..<n]"
    by (rule map_upt_Suc_shift)
  have fn: "(\<lambda>i. halfpennant_at b (Suc i)) = halfpennant_at (b - 3)"
    by (rule ext) (simp add: halfpennant_at_def algebra_simps)
  have step: "halfpennant_loop (Suc n) (Fin b) =
      (halfpennant_at b 0 # fst (halfpennant_loop n (Fin (b - 3))), snd (halfpennant_loop n (Fin (b - 3))))"
    by (simp add: js_sub_def halfpennant_at_def split: prod.splits)
  have px: "b - 3 - 3 * real n = b - 3 * real (Suc n)"
    by (simp add: algebra_simps)
  show ?case
    unfolding step shift fn Suc [of "b - 3"] fst_conv snd_conv px ..
qed

lemma barb_counts:
  "barb_flags d = d div 50"
  "barb_pennants d = (d - d div 50 * 50) div 10"
  "barb_halfpennants d = (d - d div 50 * 50 - (d - d div 50 * 50) div 10 * 10) div 5"
proof -
  have fl: "\<And>a (k::int). \<lfloor>(of_int a :: real) / of_int k\<rfloor> = a div k"
    by (simp add: floor_divide_of_int_eq)
  show 1: "barb_flags d = d div 50"
    unfolding barb_flags_def using fl [of d 50] by simp
  show 2: "barb_pennants d = (d - d div 50 * 50) div 10"
    unfolding barb_pennants_def 1 using fl [of "d - d div 50 * 50" 10] by simp
  show "barb_halfpennants d = (d - d div 50 * 50 - (d - d div 50 * 50) div 10 * 10) div 5"
    unfolding barb_halfpennants_def 1 2
    using fl [of "d - d div 50 * 50 - (d - d div 50 * 50) div 10 * 10" 5] by simp
qed

lemma speeds_eq: "speeds = [5, 10, 15, 20, 25, 30, 35, 40, 45, 50, 55, 60, 65, 70, 75, 80, 85, 90, 95, 100]"
  by (simp add: speeds_def d3_range_int_def upt_rec)

lemma make_barb_Fin:
  "make_barb (Fin b) d =
     (\<lparr>glyph_id = ''barb'' @ show_int d,
       shapes = Line (Fin 0) (Fin 0) (Fin 0) (Fin b)
         # map (flag_at b) [0..<nat (barb_flags d)]
         @ map (pennant_at (b - 7 * real (nat (barb_flags d)))) [0..<nat (barb_pennants d)]
         @ map (halfpennant_at (b - 7 * real (nat (barb_flags d)) - 3 * real (nat (barb_pennants d))))
             [0..<nat (barb_halfpennants d)]\<rparr>,
      Fin (b - 7 * real (nat (barb_flags d)) - 3 * real (nat (barb_pennants d))
             - 3 * real (nat (barb_halfpennants d))))"
  by (simp add: make_barb_def flag_loop_Fin pennant_loop_Fin halfpennant_loop_Fin)

lemma barb_ids: "map glyph_id (makeWindbarbs bs) = map (\<lambda>d. ''barb'' @ show_int d) speeds"
  by (simp add: makeWindbarbs_def make_barb_def split: prod.splits)

lemma barb_ids_distinct: "distinct (map (\<lambda>d. ''barb'' @ show_int d) speeds)"
  unfolding speeds_eq by (simp add: show_int_def digit_char_def)

text \<open>
  C8. The buckets are 5, 10, ..., 100; \<open>makeWindbarbs\<close> builds one glyph per bucket and
  their ids are pairwise different. For a bucket \<open>d\<close>: \<open>flags = floor(d / 50)\<close>,
  \<open>pennants = floor((d - flags * 50) / 10)\<close> and
  \<open>halfPennants = floor((d - flags * 50 - pennants * 10) / 5)\<close>; the glyph is the stem
  from 0 to \<open>barbSize\<close>, then the flags at \<open>px = barbSize, barbSize - 7, ...\<close>, then the
  pennants and the half-pennants, each 3 further in, and \<open>px\<close> ends at
  \<open>barbSize - 7 * flags - 3 * pennants - 3 * halfPennants\<close>. Bucket 65 has one flag, one
  pennant and one half-pennant.
\<close>

theorem windbarb_glyph_construction:
  "speeds = [5, 10, 15, 20, 25, 30, 35, 40, 45, 50, 55, 60, 65, 70, 75, 80, 85, 90, 95, 100] \<and>
   makeWindbarbs (Fin b) = map (\<lambda>d. fst (make_barb (Fin b) d)) speeds \<and>
   map glyph_id (makeWindbarbs (Fin b)) = map (\<lambda>d. ''barb'' @ show_int d) speeds \<and>
   distinct (map glyph_id (makeWindbarbs (Fin b))) \<and>
   barb_flags d = d div 50 \<and>
   barb_pennants d = (d - barb_flags d * 50) div 10 \<and>
   barb_halfpennants d = (d - barb_flags d * 50 - barb_pennants d * 10) div 5 \<and>
   make_barb (Fin b) d =
     (\<lparr>glyph_id = ''barb'' @ show_int d,
       shapes = Line (Fin 0) (Fin 0) (Fin 0) (Fin b)
         # map (flag_at b) [0..<nat (barb_flags d)]
         @ map (pennant_at (b - 7 * real (nat (barb_flags d)))) [0..<nat (barb_pennants d)]
         @ map (halfpennant_at (b - 7 * real (nat (barb_flags d)) - 3 * real (nat (barb_pennants d))))
             [0..<nat (barb_halfpennants d)]\<rparr>,
      Fin (b - 7 * real (nat (barb_flags d)) - 3 * real (nat (barb_pennants d))
             - 3 * real (nat (barb_halfpennants d)))) \<and>
   barb_flags 65 = 1 \<and> barb_pennants 65 = 1 \<and> barb_halfpennants 65 = 1"
proof -
  have ids: "map glyph_id (makeWindbarbs (Fin b)) = map (\<lambda>d. ''barb'' @ show_int d) speeds"
    by (rule barb_ids)
  have dist: "distinct (map glyph_id (makeWindbarbs (Fin b)))"
    unfolding ids by (rule barb_ids_distinct)
  have c65: "barb_flags 65 = 1 \<and> barb_pennants 65 = 1 \<and> barb_halfpennants 65 = 1"
    by (simp add: barb_counts)
  have cnt: "barb_flags d = d div 50 \<and>
      barb_pennants d = (d - barb_flags d * 50) div 10 \<and>
      barb_halfpennants d = (d - barb_flags d * 50 - barb_pennants d * 10) div 5"
    by (simp only: barb_counts)
  show ?thesis
    using speeds_eq ids dist cnt c65 make_barb_Fin [of b d]
    by (simp only: makeWindbarbs_def simp_thms)
qed

theorem windbarb_glyph_construction_witness:
  "make_barb (Fin 25) 65 =
     (\<lparr>glyph_id = ''barb65'',
       shapes = [Line (Fin 0) (Fin 0) (Fin 0) (Fin 25),
                 Polyline [(Fin 0, Fin 25), (Fin (- 10), Fin 25), (Fin 0, Fin 21)],
                 Line (Fin 0) (Fin (- 10)) (Fin 18) (Fin 22),
                 Line (Fin 0) (Fin (- 5)) (Fin 15) (Fin 17)]\<rparr>, Fin 12)"
  using windbarb_glyph_construction [of 25 65]
  by (simp add: flag_at_def pennant_at_def halfpennant_at_def show_int_def digit_char_def)

section \<open>Glyph references of placed barbs\<close>

declare show_nat.simps [simp del]

lemma show_nat_nonempty: "show_nat n \<noteq> []"
  by (subst show_nat.simps) simp

lemma digit_char_inj:
  assumes "a < 10" and "b < 10" and "digit_char a = digit_char b"
  shows "a = b"
proof -
  have "a \<in> {0, 1, 2, 3, 4, 5, 6, 7, 8, 9}" "b \<in> {0, 1, 2, 3, 4, 5, 6, 7, 8, 9}"
    using assms(1,2) by auto
  then show ?thesis
    using assms(3) unfolding digit_char_def by auto
qed

lemma show_nat_inj: "show_nat m = show_nat n \<Longrightarrow> m = n"
proof (induction m arbitrary: n rule: less_induct)
  case (less m)
  show ?case
  proof (cases "m < 10")
    case m: True
    show ?thesis
    proof (cases "n < 10")
      case True
      with m less.prems show ?thesis
        by (simp add: show_nat.simps [of m] show_nat.simps [of n] digit_char_inj)
    next
      case False
      with m less.prems show_nat_nonempty [of "n div 10"] show ?thesis
        by (simp add: show_nat.simps [of m] show_nat.simps [of n] Cons_eq_append_conv)
    qed
  next
    case m: False
    show ?thesis
    proof (cases "n < 10")
      case True
      with m less.prems show_nat_nonempty [of "m div 10"] show ?thesis
        by (simp add: show_nat.simps [of m] show_nat.simps [of n] append_eq_Cons_conv)
    next
      case False
      with m less.prems
      have eq: "show_nat (m div 10) = show_nat (n div 10)"
        and dg: "digit_char (m mod 10) = digit_char (n mod 10)"
        by (simp_all add: show_nat.simps [of m] show_nat.simps [of n])
      from m have "m div 10 < m" by simp
      from less.IH [OF this eq] have d: "m div 10 = n div 10" .
      from dg have r: "m mod 10 = n mod 10"
        by (intro digit_char_inj) simp_all
      from d r show ?thesis
        by (metis div_mult_mod_eq)
    qed
  qed
qed

lemma show_int_inj: "0 \<le> a \<Longrightarrow> 0 \<le> b \<Longrightarrow> show_int a = show_int b \<Longrightarrow> a = b"
  using show_nat_inj [of "nat a" "nat b"] by (simp add: show_int_def split: if_splits)

lemma show_nat_chars: "set (show_nat n) \<subseteq> set ''0123456789''"
proof (induction n rule: show_nat.induct)
  case (1 n)
  show ?case
  proof (cases "n < 10")
    case True
    then have "n \<in> {0, 1, 2, 3, 4, 5, 6, 7, 8, 9}" by auto
    then show ?thesis
      by (subst show_nat.simps) (auto simp: digit_char_def)
  next
    case False
    have "n mod 10 \<in> {0, 1, 2, 3, 4, 5, 6, 7, 8, 9}"
      using mod_less_divisor [of 10 n] by (auto simp del: mod_less_divisor)
    then have "digit_char (n mod 10) \<in> set ''0123456789''"
      by (auto simp: digit_char_def)
    with False "1.IH" show ?thesis
      by (subst show_nat.simps) simp
  qed
qed

lemma show_nat_times10: "0 < m \<Longrightarrow> show_nat (m * 10) = show_nat m @ ''0''"
  by (subst show_nat.simps) (simp add: digit_char_def)

lemma show_nat_pow10: "0 < m \<Longrightarrow> show_nat (m * 10 ^ j) = show_nat m @ replicate j CHR ''0''"
proof (induction j)
  case 0
  show ?case by simp
next
  case (Suc j)
  have "m * 10 ^ Suc j = (m * 10 ^ j) * 10" by simp
  then have "show_nat (m * 10 ^ Suc j) = show_nat ((m * 10 ^ j) * 10)"
    by (simp only:)
  also have "\<dots> = show_nat (m * 10 ^ j) @ ''0''"
    using Suc.prems by (intro show_nat_times10) simp
  also have "\<dots> = show_nat m @ replicate (Suc j) CHR ''0''"
    using Suc by (simp add: replicate_append_same)
  finally show ?case .
qed

lemma not_digit_in_show_nat:
  "CHR ''.'' \<notin> set (show_nat d)" "CHR ''e'' \<notin> set (show_nat d)" "CHR ''-'' \<notin> set (show_nat d)"
  "CHR ''N'' \<notin> set (show_nat d)" "CHR ''I'' \<notin> set (show_nat d)"
  using show_nat_chars [of d] by auto

lemma format_digits_plain:
  assumes "digits_of a n k s" and "format_digits (n, k, s) = show_nat d"
  shows "int k \<le> n \<and> d = s * 10 ^ nat (n - int k)"
proof -
  have "0 < (10::nat) ^ (k - 1)" by simp
  moreover from assms(1) have "10 ^ (k - 1) \<le> s" by (simp add: digits_of_def)
  ultimately have s: "0 < s" by (rule less_le_trans)
  have plain: "- 5 \<le> n \<and> n \<le> 21 \<and> int k \<le> n"
  proof (rule ccontr)
    assume "\<not> (- 5 \<le> n \<and> n \<le> 21 \<and> int k \<le> n)"
    then have "CHR ''.'' \<in> set (format_digits (n, k, s)) \<or> CHR ''e'' \<in> set (format_digits (n, k, s))"
      by (auto simp: format_digits_def)
    with assms(2) not_digit_in_show_nat(1,2) [of d] show False by auto
  qed
  then have "format_digits (n, k, s) = show_nat (s * 10 ^ nat (n - int k))"
    using show_nat_pow10 [OF s] by (simp add: format_digits_def)
  with assms(2) plain show ?thesis by (simp add: show_nat_inj)
qed

lemma js_pos_text_small:
  assumes "js_pos_text a = show_nat d" and "d < 2 ^ 53"
  shows "a = real d"
proof -
  from assms(1) show_nat_nonempty [of d] have ex: "\<exists>t. shortest_digits a t"
    by (auto simp: js_pos_text_def split: if_splits)
  define t where "t = (SOME t. shortest_digits a t)"
  from ex have sh: "shortest_digits a t" unfolding t_def by (rule someI_ex)
  obtain n k s where t: "t = (n, k, s)" by (cases t) auto
  from sh t have dg: "digits_of a n k s" by (simp add: shortest_digits_def)
  from assms(1) ex have "format_digits (n, k, s) = show_nat d"
    by (simp add: js_pos_text_def t_def [symmetric] t)
  from format_digits_plain [OF dg this]
  have kn: "int k \<le> n" and d: "d = s * 10 ^ nat (n - int k)" by simp_all
  define j where "j = nat (n - int k)"
  from kn have e: "of_int n - real k = real j" by (simp add: j_def)
  have "real s * 10 powr (of_int n - real k) = real (s * 10 ^ j)"
    unfolding e by (simp add: powr_realpow)
  also have "\<dots> = of_int (int d)" by (simp add: d j_def)
  finally have "fl (of_int (int d)) = a"
    using dg by (simp add: digits_of_def)
  moreover have "\<bar>int d\<bar> < 2 ^ 53" using assms(2) by simp
  ultimately show ?thesis using fl_int_exact [of "int d"] by simp
qed

lemma js_toString_small_int:
  assumes "\<bar>k\<bar> < 2 ^ 53"
  shows "js_toString (Fin (of_int k)) = show_int k"
proof -
  have "\<bar>of_int k :: real\<bar> < 2 ^ 53"
    using assms by (metis of_int_abs of_int_less_numeral_power_cancel_iff)
  then show ?thesis by (simp add: js_toString_def)
qed

lemma js_toString_names:
  assumes "js_toString v = show_int d" and "0 \<le> d" and "d < 2 ^ 53"
  shows "v = Fin (of_int d)"
proof -
  have t: "js_toString v = show_nat (nat d)" using assms(1,2) by (simp add: show_int_def)
  have dn: "nat d < 2 ^ 53" using assms(2,3) by (simp add: nat_less_iff)
  note nd = not_digit_in_show_nat [of "nat d"]
  show ?thesis
  proof (cases v)
    case (Fin a)
    show ?thesis
    proof (cases "a = of_int \<lfloor>a\<rfloor> \<and> \<bar>a\<bar> < 2 ^ 53")
      case True
      with t Fin have eq: "show_int \<lfloor>a\<rfloor> = show_nat (nat d)" by (simp add: js_toString_def)
      have fl0: "0 \<le> \<lfloor>a\<rfloor>"
      proof (rule ccontr)
        assume "\<not> 0 \<le> \<lfloor>a\<rfloor>"
        with eq have "CHR ''-'' \<in> set (show_nat (nat d))"
          by (simp add: show_int_def) (metis list.set_intros(1))
        with nd(3) show False by simp
      qed
      have "show_nat (nat \<lfloor>a\<rfloor>) = show_nat (nat d)"
        using eq fl0 by (simp only: show_int_def) simp
      then have "nat \<lfloor>a\<rfloor> = nat d" by (rule show_nat_inj)
      then have "\<lfloor>a\<rfloor> = d"
        using eq_nat_nat_iff [OF fl0 assms(2)] by blast
      with True Fin show ?thesis by simp
    next
      case False
      have ts: "js_toString (Fin a) =
          (if a < 0 then CHR ''-'' # js_pos_text (- a) else js_pos_text a)"
        unfolding js_toString_def by (simp only: jsnum.case if_not_P [OF False])
      show ?thesis
      proof (cases "a < 0")
        case True
        with t Fin ts have "CHR ''-'' # js_pos_text (- a) = show_nat (nat d)" by simp
        then have "CHR ''-'' \<in> set (show_nat (nat d))"
          by (metis list.set_intros(1))
        with nd(3) show ?thesis by simp
      next
        case nonneg: False
        with t Fin ts have "js_pos_text a = show_nat (nat d)" by simp
        from js_pos_text_small [OF this dn] assms(2) Fin show ?thesis by simp
      qed
    qed
  next
    case NaN
    with t have "CHR ''N'' \<in> set (show_nat (nat d))"
      by (simp add: js_toString_def) (metis list.set_intros(1))
    with nd(4) show ?thesis by simp
  next
    case PInf
    with t have "CHR ''I'' \<in> set (show_nat (nat d))"
      by (simp add: js_toString_def) (metis list.set_intros(1))
    with nd(5) show ?thesis by simp
  next
    case NInf
    with t have "CHR ''-'' \<in> set (show_nat (nat d))"
      by (simp add: js_toString_def) (metis list.set_intros(1))
    with nd(3) show ?thesis by simp
  qed
qed

lemma resolve_href_missing:
  assumes "\<forall>d\<in>set speeds. v \<noteq> Fin (of_int d)"
  shows "resolve_href (makeWindbarbs bs) (''#barb'' @ js_toString v) = None"
proof -
  have "\<And>d. d \<in> set speeds \<Longrightarrow> show_int d \<noteq> js_toString v"
  proof
    fix d assume d: "d \<in> set speeds" and eq: "show_int d = js_toString v"
    from d have "0 \<le> d" "d < 2 ^ 53" unfolding speeds_eq by auto
    from js_toString_names [OF eq [symmetric] this] d assms show False by simp
  qed
  then show ?thesis
    by (auto simp: resolve_href_def find_None_iff makeWindbarbs_def make_barb_def split: prod.splits)
qed

lemma kt_factor_bounds:
  "1.943844492 - 1 / 10 ^ 14 \<le> fl 1.943844492" "fl 1.943844492 \<le> 1.943844492 + 1 / 10 ^ 14"
  using fl_err [of "1.943844492"] by (auto simp: abs_if split: if_splits)

lemma convertWindSpeed_dbl_kt:
  "convertWindSpeed_dbl (Fin ws) ''kt'' = dbl (ws * fl 1.943844492)"
  by (simp add: convertWindSpeed_dbl_def)

lemma barb_kts_bucket:
  assumes "0 \<le> ws" and "ws \<le> 1000"
    and lo: "(of_int k - 1 / 2) * 5 + 1 / 10 ^ 5 \<le> ws * 1.943844492"
    and hi: "ws * 1.943844492 \<le> (of_int k + 1 / 2) * 5 - 1 / 10 ^ 5"
  shows "barb_kts (Fin ws) = Fin (of_int (k * 5))"
proof -
  define c where "c = fl 1.943844492"
  define x1 where "x1 = ws * c"
  have c: "1.943844492 - 1 / 10 ^ 14 \<le> c" "c \<le> 1.943844492 + 1 / 10 ^ 14"
    unfolding c_def by (rule kt_factor_bounds)+
  have "ws * (1.943844492 - 1 / 10 ^ 14) \<le> x1" "x1 \<le> ws * (1.943844492 + 1 / 10 ^ 14)"
    unfolding x1_def
    using mult_left_mono [OF c(1) assms(1)] mult_left_mono [OF c(2) assms(1)] by blast+
  then have x1: "ws * 1.943844492 - 1 / 10 ^ 10 \<le> x1" "x1 \<le> ws * 1.943844492 + 1 / 10 ^ 10"
    using assms(1,2) by (simp_all add: algebra_simps)
  have w: "0 \<le> ws * 1.943844492" "ws * 1.943844492 \<le> 2000" using assms(1,2) by simp_all
  have x1b: "- (10 ^ 4) \<le> x1" "x1 \<le> 10 ^ 4" using x1 w by simp_all
  note p = dbl_moderate [OF x1b]
  define x2 where "x2 = fl x1 / 5"
  from p(2,3) x1b have x2b: "- (10 ^ 4) \<le> x2" "x2 \<le> 10 ^ 4" by (simp_all add: x2_def)
  note q = dbl_moderate [OF x2b]
  have "ws * 1.943844492 / 5 - 1 / 10 ^ 9 \<le> fl x2" "fl x2 \<le> ws * 1.943844492 / 5 + 1 / 10 ^ 9"
    using q(2,3) p(2,3) x1 by (simp_all add: x2_def)
  with lo hi have "of_int k \<le> fl x2 + 1 / 2" "fl x2 + 1 / 2 < of_int k + 1"
    by simp_all
  then have r: "\<lfloor>fl x2 + 1 / 2\<rfloor> = k" by (simp add: floor_eq_iff)
  from w lo hi have "- 1 \<le> (of_int k :: real)" "(of_int k :: real) \<le> 1000" by simp_all
  then have "- 1 \<le> k" "k \<le> 1000" by simp_all
  then have k5: "\<bar>k * 5\<bar> < 2 ^ 53" by simp
  have "\<bar>fl (of_int (k * 5))\<bar> < 2 ^ 1024"
  proof -
    have "\<bar>of_int (k * 5) :: real\<bar> \<le> 5000"
      using \<open>- 1 \<le> k\<close> \<open>k \<le> 1000\<close> by (simp add: abs_if)
    also have "\<dots> < 2 ^ 1024" by simp
    finally show ?thesis by (simp only: fl_int_exact [OF k5])
  qed
  then have last: "dbl (of_int (k * 5)) = Fin (of_int (k * 5))"
    by (simp only: dbl_Fin fl_int_exact [OF k5])
  have "barb_kts (Fin ws) = dbl_num (js_mul (js_round (dbl_num (js_div (dbl x1) (Fin 5)))) (Fin 5))"
    by (simp only: barb_kts_def convertWindSpeed_dbl_kt x1_def c_def)
  also have "\<dots> = dbl_num (js_mul (js_round (dbl x2)) (Fin 5))"
    by (simp add: p(1) x2_def)
  also have "\<dots> = dbl (of_int (k * 5))"
    by (simp add: q(1) r)
  finally show ?thesis by (simp only: last)
qed

lemma barb_kts_high:
  assumes "52.731 \<le> ws"
  shows "barb_kts (Fin ws) = PInf \<or> (\<exists>v. barb_kts (Fin ws) = Fin v \<and> 105 \<le> v)"
proof -
  define c where "c = fl 1.943844492"
  define x1 where "x1 = ws * c"
  have c: "1.943844492 - 1 / 10 ^ 14 \<le> c" unfolding c_def by (rule kt_factor_bounds)
  then have cpos: "0 \<le> c" by simp
  have "52.731 * c \<le> x1" unfolding x1_def using assms cpos by (rule mult_right_mono)
  with c have x1: "102.5008 \<le> x1" by simp
  have start: "barb_kts (Fin ws) =
      dbl_num (js_mul (js_round (dbl_num (js_div (dbl x1) (Fin 5)))) (Fin 5))"
    by (simp only: barb_kts_def convertWindSpeed_dbl_kt x1_def c_def)
  from x1 have "1 \<le> x1" by simp
  from dbl_lower [OF this] show ?thesis
  proof
    assume "dbl x1 = PInf"
    then show ?thesis unfolding start by (simp add: js_inf_def)
  next
    assume "\<exists>v. dbl x1 = Fin v \<and> x1 - x1 / 10 ^ 15 - 1 / 10 ^ 15 \<le> v"
    then obtain p where p: "dbl x1 = Fin p" "x1 - x1 / 10 ^ 15 - 1 / 10 ^ 15 \<le> p" by blast
    from p(2) x1 have pl: "102.5007 \<le> p" by simp
    define x2 where "x2 = p / 5"
    from pl have x2: "20.50014 \<le> x2" by (simp add: x2_def)
    have s2: "barb_kts (Fin ws) = dbl_num (js_mul (js_round (dbl x2)) (Fin 5))"
      unfolding start by (simp add: p(1) x2_def)
    from x2 have "1 \<le> x2" by simp
    from dbl_lower [OF this] show ?thesis
    proof
      assume "dbl x2 = PInf"
      then show ?thesis unfolding s2 by (simp add: js_inf_def)
    next
      assume "\<exists>v. dbl x2 = Fin v \<and> x2 - x2 / 10 ^ 15 - 1 / 10 ^ 15 \<le> v"
      then obtain q where q: "dbl x2 = Fin q" "x2 - x2 / 10 ^ 15 - 1 / 10 ^ 15 \<le> q" by blast
      from q(2) x2 have "21 \<le> q + 1 / 2" by simp
      then have n: "21 \<le> \<lfloor>q + 1 / 2\<rfloor>" by (simp add: le_floor_iff)
      define n where "n = \<lfloor>q + 1 / 2\<rfloor>"
      from n have n21: "21 \<le> n" by (simp add: n_def)
      have s3: "barb_kts (Fin ws) = dbl (of_int (n * 5))"
        unfolding s2 by (simp add: q(1) n_def)
      show ?thesis
      proof (cases "\<bar>n * 5\<bar> < 2 ^ 53")
        case True
        from n21 have "(105::real) \<le> of_int (n * 5)" by simp
        moreover have "fl (of_int (n * 5)) = of_int (n * 5)" by (rule fl_int_exact [OF True])
        ultimately show ?thesis unfolding s3 by (auto simp: dbl_def)
      next
        case False
        with n21 have "2 ^ 53 \<le> n * 5" by simp
        then have big: "(2::real) ^ 53 \<le> of_int (n * 5)"
          by (metis of_int_numeral of_int_power of_int_le_iff)
        then have "1 \<le> (of_int (n * 5) :: real)" by simp
        from dbl_lower [OF this] big show ?thesis unfolding s3 by auto
      qed
    qed
  qed
qed

lemma barb_filter_other_fields:
  "barb_filter tp (d\<lparr>temp := t, dwpt := td, hght := hh\<rparr>) = barb_filter tp d"
  by (simp add: barb_filter_def split: option.splits)

lemma barb_filter_iff:
  "barb_filter tp d \<longleftrightarrow>
     (\<exists>wd ws. wdir d = Some wd \<and> wspd d = Some ws \<and>
        js_ge wd (Fin 0) \<and> js_ge ws (Fin 0) \<and> js_ge (press d) tp)"
  by (auto simp: barb_filter_def split: option.splits)

lemma place_barb_transform:
  "wdir d = Some wd \<Longrightarrow>
     tx (place_barb w y d) = w \<and> ty (place_barb w y d) = y (press d) \<and>
     rot (place_barb w y d) = js_add wd (Fin 180)"
  by (simp add: place_barb_def)

lemma href_of_speed:
  "wspd d = Some ws \<Longrightarrow> href (place_barb w y d) = ''#barb'' @ js_toString (barb_kts ws)"
  by (simp add: place_barb_def)

text \<open>
  C10. A sample that passes the barb filter has a wind speed \<open>ws\<close> that is at least 0
  and refers to the glyph id \<open>barb\<close> followed by \<open>round(ws * 1.943844492 / 5) * 5\<close>
  (computed in double precision), while glyphs exist only for 5, 10, ..., 100. For a
  finite \<open>ws\<close>: up to 1.2861 m/s the knots round to 0 and the reference is \<open>#barb0\<close>;
  from 52.731 m/s the bucket is 105 or more (or the product overflows to \<open>Infinity\<close>).
  In both cases no glyph has the referenced id, so nothing is shown for the placed
  barb.
\<close>

theorem placed_barb_may_lack_glyph:
  "barb_filter tp d \<longrightarrow>
     (\<exists>ws. wspd d = Some ws \<and> js_ge ws (Fin 0) \<and>
        href (place_barb w y d) =
          ''#barb'' @ js_toString
             (dbl_num (js_mul (js_round (dbl_num (js_div
                (dbl_num (js_mul ws (Fin (fl 1.943844492)))) (Fin 5)))) (Fin 5)))) \<and>
     map glyph_id (makeWindbarbs bs) = map (\<lambda>k. ''barb'' @ show_int k)
       [5, 10, 15, 20, 25, 30, 35, 40, 45, 50, 55, 60, 65, 70, 75, 80, 85, 90, 95, 100] \<and>
     (\<forall>r. wspd d = Some (Fin r) \<longrightarrow>
        0 \<le> r \<and>
        (r \<le> 1.2861 \<longrightarrow>
           barb_kts (Fin r) = Fin 0 \<and>
           href (place_barb w y d) = ''#barb0'' \<and>
           resolve_href (makeWindbarbs bs) (href (place_barb w y d)) = None) \<and>
        (52.731 \<le> r \<longrightarrow>
           (barb_kts (Fin r) = PInf \<or> (\<exists>v. barb_kts (Fin r) = Fin v \<and> 105 \<le> v)) \<and>
           resolve_href (makeWindbarbs bs) (href (place_barb w y d)) = None))"
proof (intro impI conjI allI)
  assume f: "barb_filter tp d"
  then obtain wd ws where w: "wdir d = Some wd" "wspd d = Some ws" "js_ge ws (Fin 0)"
    unfolding barb_filter_iff by blast
  then show "\<exists>ws. wspd d = Some ws \<and> js_ge ws (Fin 0) \<and>
        href (place_barb w y d) =
          ''#barb'' @ js_toString
             (dbl_num (js_mul (js_round (dbl_num (js_div
                (dbl_num (js_mul ws (Fin (fl 1.943844492)))) (Fin 5)))) (Fin 5)))"
    by (simp add: place_barb_def barb_kts_def convertWindSpeed_dbl_def)
next
  show "map glyph_id (makeWindbarbs bs) = map (\<lambda>k. ''barb'' @ show_int k)
       [5, 10, 15, 20, 25, 30, 35, 40, 45, 50, 55, 60, 65, 70, 75, 80, 85, 90, 95, 100]"
    using barb_ids [of bs] unfolding speeds_eq .
next
  fix r
  assume f: "barb_filter tp d" and ws: "wspd d = Some (Fin r)"
  then show nonneg: "0 \<le> r"
    by (auto simp: barb_filter_def js_ge_def js_le_def split: option.splits)
  note h = href_of_speed [OF ws, of w y]
  {
    assume le: "r \<le> 1.2861"
    have "barb_kts (Fin r) = Fin (of_int (0 * 5))"
    proof (rule barb_kts_bucket)
      show "0 \<le> r" by (rule nonneg)
      show "r \<le> 1000" using le by simp
      show "(of_int 0 - 1 / 2) * 5 + 1 / 10 ^ 5 \<le> r * 1.943844492" using nonneg by simp
      have "r * 1.943844492 \<le> 1.2861 * 1.943844492"
        by (rule mult_right_mono [OF le]) simp
      then show "r * 1.943844492 \<le> (of_int 0 + 1 / 2) * 5 - 1 / 10 ^ 5" by simp
    qed
    then show k0: "barb_kts (Fin r) = Fin 0" by simp
    have "js_toString (Fin (of_int 0)) = show_int 0"
      by (rule js_toString_small_int) simp
    then have t0: "js_toString (Fin 0) = ''0''"
      by (simp add: show_int_def show_nat.simps digit_char_def)
    show h0: "href (place_barb w y d) = ''#barb0''" by (simp add: h k0 t0)
    have "\<forall>s\<in>set speeds. Fin 0 \<noteq> Fin (of_int s)" unfolding speeds_eq by simp
    from resolve_href_missing [OF this, of bs]
    show "resolve_href (makeWindbarbs bs) (href (place_barb w y d)) = None"
      by (simp add: h k0)
  }
  {
    assume ge: "52.731 \<le> r"
    show hi: "barb_kts (Fin r) = PInf \<or> (\<exists>v. barb_kts (Fin r) = Fin v \<and> 105 \<le> v)"
      by (rule barb_kts_high [OF ge])
    have top: "\<forall>s\<in>set speeds. (of_int s :: real) \<le> 100" unfolding speeds_eq by simp
    have "\<forall>s\<in>set speeds. barb_kts (Fin r) \<noteq> Fin (of_int s)"
    proof
      fix s assume s: "s \<in> set speeds"
      with top have "(of_int s :: real) \<le> 100" by blast
      with hi show "barb_kts (Fin r) \<noteq> Fin (of_int s)" by auto
    qed
    from resolve_href_missing [OF this, of bs]
    show "resolve_href (makeWindbarbs bs) (href (place_barb w y d)) = None"
      by (simp only: h)
  }
qed

theorem placed_barb_may_lack_glyph_witness:
  "barb_filter (Fin 690) (sample 1000 25 20 160 1.28) \<and>
   wspd (sample 1000 25 20 160 1.28) = Some (Fin 1.28) \<and>
   (1.28::real) \<le> 1.2861 \<and>
   barb_kts (Fin 1.28) = Fin 0 \<and>
   href (place_barb (Fin 680) frame_y (sample 1000 25 20 160 1.28)) = ''#barb0'' \<and>
   resolve_href (makeWindbarbs (Fin 25))
     (href (place_barb (Fin 680) frame_y (sample 1000 25 20 160 1.28))) = None \<and>
   barb_filter (Fin 690) (sample 1000 25 20 160 52.8) \<and>
   wspd (sample 1000 25 20 160 52.8) = Some (Fin 52.8) \<and>
   (52.731::real) \<le> 52.8 \<and>
   resolve_href (makeWindbarbs (Fin 25))
     (href (place_barb (Fin 680) frame_y (sample 1000 25 20 160 52.8))) = None"
proof -
  have f1: "barb_filter (Fin 690) (sample 1000 25 20 160 1.28)"
    and f2: "barb_filter (Fin 690) (sample 1000 25 20 160 52.8)"
    by (simp_all add: barb_filter_def sample_def js_ge_def js_le_def)
  have w1: "wspd (sample 1000 25 20 160 1.28) = Some (Fin 1.28)"
    and w2: "wspd (sample 1000 25 20 160 52.8) = Some (Fin 52.8)"
    by (simp_all add: sample_def)
  have a1: "(1.28::real) \<le> 1.2861" and a2: "(52.731::real) \<le> 52.8"
    by simp_all
  from placed_barb_may_lack_glyph
    [of "Fin 690" "sample 1000 25 20 160 1.28" "Fin 680" frame_y "Fin 25"] f1 w1 a1
  have r1: "barb_kts (Fin 1.28) = Fin 0"
    "href (place_barb (Fin 680) frame_y (sample 1000 25 20 160 1.28)) = ''#barb0''"
    "resolve_href (makeWindbarbs (Fin 25))
     (href (place_barb (Fin 680) frame_y (sample 1000 25 20 160 1.28))) = None"
    by blast+
  from placed_barb_may_lack_glyph
    [of "Fin 690" "sample 1000 25 20 160 52.8" "Fin 680" frame_y "Fin 25"] f2 w2 a2
  have r2: "resolve_href (makeWindbarbs (Fin 25))
     (href (place_barb (Fin 680) frame_y (sample 1000 25 20 160 52.8))) = None"
    by blast
  from f1 f2 w1 w2 a1 a2 r1 r2 show ?thesis by blast
qed

section \<open>The skew formula in the curve families\<close>

lemma frame_tan_pos: "0 < tan (55 * (pi / 180))"
proof (rule tan_gt_zero)
  show "0 < 55 * (pi / 180)" by simp
  have "55 * (pi / 180) = pi * (55 / 180)" by simp
  also have "\<dots> < pi * (1 / 2)" by (rule mult_strict_left_mono) simp_all
  finally show "55 * (pi / 180) < pi / 2" by simp
qed

lemma frame_y_base: "frame_y (Fin 1050) = Fin 520"
  by (simp add: frame_y_def scaleLog_def bimap_def normalize_def interpolateNumber_def js_sub_def Let_def)

lemma frame_y_top: "frame_y (Fin 690) = Fin 0"
  by (simp add: frame_y_def scaleLog_def bimap_def normalize_def interpolateNumber_def js_sub_def Let_def)

lemma frame_x_zero: "frame_x (Fin 0) = Fin (1190 / 3)"
  by (simp add: frame_x_def scaleLinear_def bimap_def normalize_def interpolateNumber_def js_sub_def Let_def)

lemma frame_x_Fin: "frame_x (Fin t) = Fin (680 * ((t + 70) / 120))"
  by (simp add: frame_x_def scaleLinear_def bimap_def normalize_def interpolateNumber_def js_sub_def Let_def)

text \<open>
  C1, as stated, fails for the isotherms. In the component's frame the bottom of the
  plot is the row of the base pressure, \<open>y(1050) = 520 = h\<close>; the isotherm of 0 degrees
  ends there at \<open>x(0) - 0.5\<close>, half a pixel left of the profile-line point for
  temperature 0 at 1050 hPa, which is the formula's value \<open>x(0)\<close>.
\<close>

theorem isotherm_half_pixel_counterexample:
  "frame_y (Fin 1050) = Fin 520 \<and>
   templine_x2 frame_x (Fin 0) = Fin (2377 / 6) \<and>
   templine_x frame_x frame_y (Fin 1050) frame_tan
     \<lparr>press = Fin 1050, hght = None, temp = Some (Fin 0), dwpt = None, wdir = None, wspd = None\<rparr>
     = Fin (1190 / 3) \<and>
   spec_screenX frame_x frame_y (Fin 1050) frame_tan (Fin 0) (Fin 1050) = Fin (1190 / 3) \<and>
   templine_x2 frame_x (Fin 0) \<noteq> spec_screenX frame_x frame_y (Fin 1050) frame_tan (Fin 0) (Fin 1050)"
  using frame_tan_pos
  by (simp add: frame_y_base frame_x_zero templine_x2_def templine_x_def field_x_def
      spec_screenX_def frame_tan_def js_sub_def)

text \<open>
  C1, amended. In one frame the temperature line, the dew-point line and the dry
  adiabats compute the same x for the same (temperature, pressure), namely
  \<open>x(t) + (y(basePressure) - y(p)) / tan\<close>, where the dry adiabat's temperature at \<open>p\<close> is
  its display temperature, except that the dry adiabat emits 0 when that value is
  \<open>NaN\<close>. The isotherm's bottom end is that value at the base pressure moved half a
  pixel to the left (for a finite \<open>y(basePressure)\<close> and a finite non-zero tangent).
\<close>

theorem skew_formula_shared:
  "(temp d = Some t \<longrightarrow> templine_x x y basep tang d = spec_screenX x y basep tang t (press d)) \<and>
   (dwpt d = Some t \<longrightarrow> dewline_x x y basep tang d = spec_screenX x y basep tang t (press d)) \<and>
   dryline_xVal x y basep tang (theta, p) = spec_screenX x y basep tang (spec_displayTemp theta p) p \<and>
   (\<not> js_isNaN (spec_screenX x y basep tang (spec_displayTemp theta p) p) \<longrightarrow>
      dryline_x x y basep tang (theta, p) = spec_screenX x y basep tang (spec_displayTemp theta p) p) \<and>
   (js_isNaN (spec_screenX x y basep tang (spec_displayTemp theta p) p) \<longrightarrow>
      dryline_x x y basep tang (theta, p) = Fin 0) \<and>
   (js_isFinite (y basep) \<and> js_isFinite tang \<and> tang \<noteq> Fin 0 \<longrightarrow>
      templine_x2 x t = js_sub (spec_screenX x y basep tang t basep) (Fin 0.5))"
proof -
  have xv: "dryline_xVal x y basep tang (theta, p) = spec_screenX x y basep tang (spec_displayTemp theta p) p"
    by (cases theta) (simp_all add: dryline_xVal_def spec_screenX_def spec_displayTemp_def add.commute)
  have bottom: "templine_x2 x t = js_sub (spec_screenX x y basep tang t basep) (Fin 0.5)"
    if "js_isFinite (y basep)" "js_isFinite tang" "tang \<noteq> Fin 0"
  proof -
    from that obtain a b where ab: "y basep = Fin a" "tang = Fin b" "b \<noteq> 0"
      by (cases "y basep"; cases tang) auto
    then have "js_div (js_sub (y basep) (y basep)) tang = Fin 0"
      by (simp add: js_sub_def)
    then show ?thesis
      by (cases "x t") (simp_all add: templine_x2_def spec_screenX_def js_sub_def)
  qed
  show ?thesis
    using xv bottom
    by (simp add: templine_x_def dewline_x_def field_x_def spec_screenX_def dryline_x_def Let_def)
qed


theorem skew_formula_shared_witness:
  "temp (sample 1000 25 20 160 5) = Some (Fin 25) \<and>
   templine_x frame_x frame_y (Fin 1050) frame_tan (sample 1000 25 20 160 5)
     = spec_screenX frame_x frame_y (Fin 1050) frame_tan (Fin 25) (Fin 1000) \<and>
   dwpt (sample 1000 25 20 160 5) = Some (Fin 20) \<and>
   dewline_x frame_x frame_y (Fin 1050) frame_tan (sample 1000 25 20 160 5)
     = spec_screenX frame_x frame_y (Fin 1050) frame_tan (Fin 20) (Fin 1000) \<and>
   \<not> js_isNaN (spec_screenX frame_x frame_y (Fin 1050) frame_tan (spec_displayTemp (Fin 10) (Fin 1050)) (Fin 1050)) \<and>
   dryline_x frame_x frame_y (Fin 1050) frame_tan (Fin 10, Fin 1050)
     = spec_screenX frame_x frame_y (Fin 1050) frame_tan (spec_displayTemp (Fin 10) (Fin 1050)) (Fin 1050) \<and>
   js_isNaN (spec_screenX frame_x frame_y (Fin 1050) (Fin 0) (spec_displayTemp (Fin 10) (Fin 1050)) (Fin 1050)) \<and>
   dryline_x frame_x frame_y (Fin 1050) (Fin 0) (Fin 10, Fin 1050) = Fin 0 \<and>
   js_isFinite (frame_y (Fin 1050)) \<and> js_isFinite frame_tan \<and> frame_tan \<noteq> Fin 0 \<and>
   templine_x2 frame_x (Fin 25)
     = js_sub (spec_screenX frame_x frame_y (Fin 1050) frame_tan (Fin 25) (Fin 1050)) (Fin 0.5)"
proof -
  have t: "temp (sample 1000 25 20 160 5) = Some (Fin 25)"
    and d: "dwpt (sample 1000 25 20 160 5) = Some (Fin 20)"
    and p: "press (sample 1000 25 20 160 5) = Fin 1000"
    by (simp_all add: sample_def)
  have fin: "js_isFinite (frame_y (Fin 1050))" "js_isFinite frame_tan" "frame_tan \<noteq> Fin 0"
    using frame_tan_pos by (simp_all add: frame_y_base frame_tan_def)
  have ok: "\<not> js_isNaN (spec_screenX frame_x frame_y (Fin 1050) frame_tan (spec_displayTemp (Fin 10) (Fin 1050)) (Fin 1050))"
    using frame_tan_pos
    by (simp add: spec_screenX_def spec_displayTemp_def frame_y_base frame_x_Fin frame_tan_def js_sub_def)
  have nan: "js_isNaN (spec_screenX frame_x frame_y (Fin 1050) (Fin 0) (spec_displayTemp (Fin 10) (Fin 1050)) (Fin 1050))"
    by (simp add: spec_screenX_def spec_displayTemp_def frame_y_base frame_x_Fin js_sub_def)
  note a = skew_formula_shared [of "sample 1000 25 20 160 5" "Fin 25" frame_x frame_y "Fin 1050"
      frame_tan "Fin 10" "Fin 1050"]
  note b = skew_formula_shared [of "sample 1000 25 20 160 5" "Fin 20" frame_x frame_y "Fin 1050"
      "Fin 0" "Fin 10" "Fin 1050"]
  note c = skew_formula_shared [of "sample 1000 25 20 160 5" "Fin 20" frame_x frame_y "Fin 1050"
      frame_tan "Fin 10" "Fin 1050"]
  show ?thesis
    using a b c t d p fin ok nan by simp
qed

section \<open>Dry adiabats\<close>

lemma d3_line_gen_all_defined:
  "list_all df ds \<Longrightarrow> d3_line_gen df pt ds (Some run) = [run @ map pt ds]"
  by (induction ds arbitrary: run) simp_all

lemma d3_line_all_defined:
  assumes "list_all df ds"
  shows "d3_line df xf yf ds = (if ds = [] then [] else [map (\<lambda>d. (xf d, yf d)) ds])"
proof (cases ds)
  case Nil
  then show ?thesis by (simp add: d3_line_def)
next
  case (Cons d rest)
  with assms have "df d" "list_all df rest" by simp_all
  then show ?thesis
    by (simp add: d3_line_def Cons d3_line_gen_all_defined)
qed

lemma dryline_x_not_NaN: "\<not> js_isNaN (dryline_x x y basep tang dp)"
  by (simp add: dryline_x_def Let_def)

lemma dryline_single_path:
  "dryline x y basep tang z =
     (if z = [] then [] else [map (\<lambda>dp. (dryline_x x y basep tang dp, y (snd dp))) z])"
  unfolding dryline_def by (rule d3_line_all_defined) (simp add: list_all_iff)

lemma dryline_points_not_NaN:
  "list_all (\<lambda>pt. \<not> js_isNaN (fst pt)) (concat (dryline x y basep tang z))"
  by (simp add: dryline_single_path list_all_iff dryline_x_not_NaN)

text \<open>
  C6, amended. In dry-adiabat generation a computed x that is \<open>NaN\<close> is replaced by 0
  and any other computed x, an infinite one included, is emitted as computed; so no
  emitted x is \<open>NaN\<close>. Each adiabat is one sub-path whose points are the replaced x and
  the unchanged \<open>y(p)\<close>.
\<close>

theorem dryline_x_replaces_NaN:
  "(js_isNaN (dryline_xVal x y basep tang dp) \<longrightarrow> dryline_x x y basep tang dp = Fin 0) \<and>
   (\<not> js_isNaN (dryline_xVal x y basep tang dp) \<longrightarrow>
      dryline_x x y basep tang dp = dryline_xVal x y basep tang dp) \<and>
   \<not> js_isNaN (dryline_x x y basep tang dp) \<and>
   dryline x y basep tang z =
     (if z = [] then [] else [map (\<lambda>dp. (dryline_x x y basep tang dp, y (snd dp))) z]) \<and>
   list_all (\<lambda>pt. \<not> js_isNaN (fst pt)) (concat (concat (dryadiabats x y basep tang tp)))"
proof -
  have "list_all (\<lambda>pt. \<not> js_isNaN (fst pt)) (concat (concat (dryadiabats x y basep tang tp)))"
    using dryline_points_not_NaN [of x y basep tang]
    by (auto simp: dryadiabats_def list_all_iff)
  then show ?thesis
    using dryline_single_path [of x y basep tang z]
    by (simp add: dryline_x_def Let_def)
qed

theorem dryline_x_replaces_NaN_witness:
  "js_isNaN (dryline_xVal frame_x frame_y (Fin 1050) (Fin 0) (Fin 10, Fin 1050)) \<and>
   dryline_x frame_x frame_y (Fin 1050) (Fin 0) (Fin 10, Fin 1050) = Fin 0 \<and>
   \<not> js_isNaN (dryline_xVal frame_x frame_y (Fin 1050) frame_tan (Fin 10, Fin 1050)) \<and>
   dryline_x frame_x frame_y (Fin 1050) frame_tan (Fin 10, Fin 1050)
     = dryline_xVal frame_x frame_y (Fin 1050) frame_tan (Fin 10, Fin 1050)"
proof -
  have nan: "js_isNaN (dryline_xVal frame_x frame_y (Fin 1050) (Fin 0) (Fin 10, Fin 1050))"
    by (simp add: dryline_xVal_def frame_y_base frame_x_Fin js_sub_def)
  have ok: "\<not> js_isNaN (dryline_xVal frame_x frame_y (Fin 1050) frame_tan (Fin 10, Fin 1050))"
    using frame_tan_pos
    by (simp add: dryline_xVal_def frame_y_base frame_x_Fin frame_tan_def js_sub_def)
  show ?thesis
    using nan ok
      dryline_x_replaces_NaN [of frame_x frame_y "Fin 1050" "Fin 0" "(Fin 10, Fin 1050)"]
      dryline_x_replaces_NaN [of frame_x frame_y "Fin 1050" frame_tan "(Fin 10, Fin 1050)"]
    by simp
qed

text \<open>
  C6, as stated, fails: the test is \<open>isNaN\<close>, which an infinity passes. With a tangent
  of 0 given to \<open>drawBackground\<close>, the x computed at the top pressure of the frame is
  \<open>Infinity\<close> and is emitted into the polyline.
\<close>

theorem dryline_x_infinite_counterexample:
  "dryline_x frame_x frame_y (Fin 1050) (Fin 0) (Fin 10, Fin 690) = PInf \<and>
   \<not> js_isFinite (dryline_x frame_x frame_y (Fin 1050) (Fin 0) (Fin 10, Fin 690)) \<and>
   PInf \<in> fst ` set (concat (dryline frame_x frame_y (Fin 1050) (Fin 0) [(Fin 10, Fin 690), (Fin 10, Fin 700)]))"
proof -
  have v: "dryline_xVal frame_x frame_y (Fin 1050) (Fin 0) (Fin 10, Fin 690) = PInf"
    by (simp add: dryline_xVal_def frame_y_base frame_y_top frame_x_Fin js_sub_def js_inf_def)
  then have x: "dryline_x frame_x frame_y (Fin 1050) (Fin 0) (Fin 10, Fin 690) = PInf"
    by (simp add: dryline_x_def)
  then show ?thesis
    by (simp add: dryline_single_path)
qed

section \<open>Profile lines and gaps\<close>

lemma skewtline_defined:
  "list_all (\<lambda>d. defined_field (temp d)) (skewtline data)"
  "list_all (\<lambda>d. defined_field (dwpt d)) (skewtline data)"
  by (simp_all add: skewtline_def list_all_iff)

text \<open>Whatever the data, each path that is drawn is a single sub-path through all of
  \<open>skewtline\<close>: the generators' \<open>defined\<close> accessors never meet an undefined sample.\<close>

lemma drawTempDewLines_single_path:
  "fst (drawTempDewLines data x y basep tang) =
     (if skewtline data = [] then []
      else [map (\<lambda>d. (templine_x x y basep tang d, y (press d))) (skewtline data)]) \<and>
   snd (drawTempDewLines data x y basep tang) =
     (if skewtline data = [] then []
      else [map (\<lambda>d. (dewline_x x y basep tang d, y (press d))) (skewtline data)])"
  using d3_line_all_defined [OF skewtline_defined(1), where xf = "templine_x x y basep tang"
      and yf = "\<lambda>d. y (press d)" and data1 = data]
    d3_line_all_defined [OF skewtline_defined(2), where xf = "dewline_x x y basep tang"
      and yf = "\<lambda>d. y (press d)" and data1 = data]
  by (simp add: drawTempDewLines_def templine_def dewline_def skewtline_def)

text \<open>
  C3 at \<open>gap_profile\<close>, whose middle sample (850 hPa) has no temperature between two
  samples that have one. The temperature generator applied to the profile itself
  breaks the line there: two sub-paths, no segment. But the gap sample is removed by
  the filter that builds \<open>skewtline\<close> before the generator runs, and the temperature
  path that is drawn has one segment, which joins the 1000 hPa sample to the 700 hPa
  sample across the gap.
\<close>

theorem gap_is_bridged:
  "\<not> defined_field (temp gap_sample) \<and>
   defined_field (temp (sample 1000 25 20 160 5)) \<and>
   defined_field (temp (sample 700 2 (- 5) 250 25)) \<and>
   gap_profile = [sample 1000 25 20 160 5, gap_sample, sample 700 2 (- 5) 250 25] \<and>
   templine frame_x frame_y (Fin 1050) frame_tan gap_profile =
     [[(templine_x frame_x frame_y (Fin 1050) frame_tan (sample 1000 25 20 160 5), frame_y (Fin 1000))],
      [(templine_x frame_x frame_y (Fin 1050) frame_tan (sample 700 2 (- 5) 250 25), frame_y (Fin 700))]] \<and>
   segments (templine frame_x frame_y (Fin 1050) frame_tan gap_profile) = [] \<and>
   skewtline gap_profile = [sample 1000 25 20 160 5, sample 700 2 (- 5) 250 25] \<and>
   segments (fst (drawTempDewLines gap_profile frame_x frame_y (Fin 1050) frame_tan)) =
     [((templine_x frame_x frame_y (Fin 1050) frame_tan (sample 1000 25 20 160 5), frame_y (Fin 1000)),
       (templine_x frame_x frame_y (Fin 1050) frame_tan (sample 700 2 (- 5) 250 25), frame_y (Fin 700)))]"
  by (simp add: gap_profile_def gap_sample_def sample_def drawTempDewLines_def skewtline_def
      defined_field_def js_gt_def templine_def d3_line_def segments_def)

section \<open>Wind barb placement\<close>

text \<open>
  C4 at the sample \<open>wind_only\<close> (220 degrees, 12 m/s, 850 hPa, no temperature and no
  dew point) with top pressure 690: the sample passes the wind filter and
  \<open>drawWindBarbs\<close> of utils/windBarbs.ts places its barb at
  \<open>translate(680, y(850)) rotate(400)\<close>; the component's \<open>drawLines\<close>, which filters
  \<open>skewtline\<close>, places none.
\<close>

theorem component_barb_needs_temp_and_dwpt:
  "barb_filter (Fin 690) wind_only \<and>
   drawWindBarbs [wind_only] (Fin 690) (Fin 680) frame_y =
     [\<lparr>href = ''#barb25'', tx = Fin 680, ty = frame_y (Fin 850), rot = Fin 400\<rparr>] \<and>
   drawLines_barbs [wind_only] (Fin 690) (Fin 680) frame_y = []"
proof -
  have "barb_kts (Fin 12) = Fin (of_int (5 * 5))"
    by (rule barb_kts_bucket) simp_all
  then have k: "barb_kts (Fin 12) = Fin 25" by simp
  have "js_toString (Fin (of_int 25)) = show_int 25"
    by (rule js_toString_small_int) simp
  then have t: "js_toString (Fin 25) = ''25''"
    by (simp add: show_int_def show_nat.simps digit_char_def)
  show ?thesis
    by (simp add: wind_only_def barb_filter_def js_ge_def js_le_def drawWindBarbs_def
        drawLines_barbs_def skewtline_def defined_field_def place_barb_def k t)
qed

section \<open>Probe lookup\<close>

declare bisect_loop.simps [simp del]

lemma bisect_loop_bounds:
  "0 \<le> lo \<Longrightarrow> lo \<le> hi \<Longrightarrow> hi \<le> int (length a) \<Longrightarrow>
     \<exists>i. bisect_loop a x lo hi = Inr i \<and> lo \<le> i \<and> i \<le> hi"
proof (induction a x lo hi rule: bisect_loop.induct)
  case (1 a x lo hi)
  show ?case
  proof (cases "lo < hi")
    case False
    then have "bisect_loop a x lo hi = Inr lo"
      by (subst bisect_loop.simps) simp
    with "1.prems" show ?thesis by simp
  next
    case True
    define mid where "mid = (lo + hi) div 2"
    from True "1.prems" have m: "lo \<le> mid" "mid < hi" "\<not> mid < 0" "\<not> int (length a) \<le> mid"
      by (simp_all add: mid_def)
    show ?thesis
    proof (cases "js_lt (press (a ! nat mid)) x")
      case lt: True
      from "1.IH"(1) [OF True mid_def _ lt] m "1.prems"
      obtain i where "bisect_loop a x (mid + 1) hi = Inr i" "mid + 1 \<le> i" "i \<le> hi"
        by auto
      with True m lt show ?thesis
        by (simp add: bisect_loop.simps [of a x lo hi] mid_def [symmetric] Let_def)
    next
      case ge: False
      from "1.IH"(2) [OF True mid_def _ ge] m "1.prems"
      obtain i where "bisect_loop a x lo mid = Inr i" "lo \<le> i" "i \<le> mid"
        by auto
      with True m ge show ?thesis
        by (simp add: bisect_loop.simps [of a x lo hi] mid_def [symmetric] Let_def)
    qed
  qed
qed

lemma probe_between_neighbours:
  assumes "2 \<le> length sl"
  shows "\<exists>i. bisectTemp sl y0 1 (int (length sl) - 1) = Inr i \<and> 1 \<le> i \<and> i \<le> int (length sl) - 1 \<and>
           mousemove_component sl y0 = Inr (Some (nearer y0 (sl ! nat (i - 1)) (sl ! nat i))) \<and>
           mousemove_utils sl y0 = Inr (Some (nearer y0 (sl ! nat (i - 1)) (sl ! nat i)))"
proof -
  from assms have b: "(0::int) \<le> 1" "1 \<le> int (length sl) - 1" "int (length sl) - 1 \<le> int (length sl)"
    by simp_all
  from bisect_loop_bounds [OF b, of y0]
  obtain j where j: "bisect_loop sl y0 1 (int (length sl) - 1) = Inr j" "1 \<le> j" "j \<le> int (length sl) - 1"
    by blast
  have "\<exists>i. bisectTemp sl y0 1 (int (length sl) - 1) = Inr i \<and> 1 \<le> i \<and> i \<le> int (length sl) - 1"
    using j b by (auto simp: bisectTemp_def)
  then obtain i where i: "bisectTemp sl y0 1 (int (length sl) - 1) = Inr i" "1 \<le> i" "i \<le> int (length sl) - 1"
    by blast
  then show ?thesis
    by (intro exI [of _ i]) (simp add: mousemove_component_def mousemove_utils_def js_index_def)
qed

text \<open>
  C2 at the profile 1000, 850, 700, 500 hPa and the probe pressure 780: the bisection,
  which presumes ascending pressures, returns the index 3, the candidates are the 700
  and 500 hPa samples, and both handlers select the 700 hPa sample. On the same
  pressures in ascending order the 850 hPa sample is selected.
\<close>

theorem probe_descending_profile:
  "bisectTemp (map at_press [1000, 850, 700, 500]) (Fin 780) 1 3 = Inr 3 \<and>
   mousemove_component (map at_press [1000, 850, 700, 500]) (Fin 780) = Inr (Some (at_press 700)) \<and>
   mousemove_utils (map at_press [1000, 850, 700, 500]) (Fin 780) = Inr (Some (at_press 700)) \<and>
   mousemove_component (map at_press [500, 700, 850, 1000]) (Fin 780) = Inr (Some (at_press 850))"
  by (simp add: mousemove_component_def mousemove_utils_def bisectTemp_def bisect_loop.simps
      at_press_def js_index_def nearer_def js_sub_def Let_def)

text \<open>
  C5 at profiles of no sample and of one sample, for every probe pressure: the handler
  of utils/drawFunctions.ts throws a \<open>TypeError\<close>, the component's handler returns
  early without a readout. For the empty profile the barbs and both polylines are
  empty and the top pressure is the default 100 less 10.
\<close>

theorem probe_short_profile:
  "mousemove_utils [] y0 = Inl TypeError \<and>
   mousemove_utils [d] y0 = Inl TypeError \<and>
   mousemove_component [] y0 = Inr None \<and>
   mousemove_component [d] y0 = Inr None \<and>
   drawWindBarbs [] tp w y = [] \<and>
   drawLines_barbs [] tp w y = [] \<and>
   drawTempDewLines [] x y basep tang = ([], []) \<and>
   topp [] = Fin 90"
  by (simp add: mousemove_component_def mousemove_utils_def bisectTemp_def
      js_index_def drawWindBarbs_def drawLines_barbs_def drawTempDewLines_def skewtline_def
      templine_def dewline_def d3_line_def topp_def getSmallestPressureValue_def js_max_def js_sub_def)

end
